theory Spec2Isabelle
  imports Complex_Main "HOL-Library.Word" "HOL-Library.Monad_Syntax"
begin

unbundle bit_operations_syntax

section \<open>Numbers, axes and settings\<close>

text \<open>
  The model follows \<^verbatim>\<open>src/MaslowDue/system.cpp\<close> as compiled with \<^verbatim>\<open>MASLOWCNC\<close>
  defined (\<^verbatim>\<open>grbl.h\<close> defines it unconditionally).

  \<^verbatim>\<open>float\<close> and \<^verbatim>\<open>double\<close> values are modelled as real numbers: rounding, infinities
  and NaN are outside the model, a conversion between \<^verbatim>\<open>float\<close> and \<^verbatim>\<open>double\<close> is the
  identity, \<^verbatim>\<open>pow(v, 2)\<close> is \<open>v\<^sup>2\<close>, and \<^verbatim>\<open>asin\<close>, \<^verbatim>\<open>sin\<close>, \<^verbatim>\<open>cos\<close>, \<^verbatim>\<open>sinh\<close>, \<^verbatim>\<open>sqrt\<close> are the
  functions of analysis. The one exception is the product that
  \<^verbatim>\<open>system_convert_maslow_to_xy_steps\<close> converts to a step count: there the rounding of
  the \<^verbatim>\<open>float\<close> product decides an integer, and the model rounds as the code does.
  \<^verbatim>\<open>int32_t\<close> step counts are integers; a conversion from a floating-point value to
  \<^verbatim>\<open>int32_t\<close> truncates towards zero and is taken to be in range.
\<close>

text \<open>
  Modelled from the spec: \<^verbatim>\<open>nuts_bolts.h\<close> (the axis indices) is not among the sources.
  The spec's scenario E3 writes targets and travel limits as three-element arrays ordered
  X, Y, Z.
\<close>

definition N_AXIS :: nat where
  "N_AXIS = 3"

definition X_AXIS :: nat where
  "X_AXIS = 0"

definition Y_AXIS :: nat where
  "Y_AXIS = 1"

definition Z_AXIS :: nat where
  "Z_AXIS = 2"

text \<open>
  The fields of \<^verbatim>\<open>settings\<close> that \<^verbatim>\<open>system.cpp\<close> reads. The arrays have \<open>N_AXIS\<close>
  entries.
\<close>

record settings =
  steps_per_mm :: "real list"
  max_travel :: "real list"
  flags :: "8 word"
  homing_dir_mask :: "8 word"
  zTravelMin :: real
  distBetweenMotors :: real
  machineHeight :: real
  motorOffsetY :: real
  XcorrScaling :: real
  YcorrScaling :: real
  chainOverSprocket :: real
  chainLength :: real
  chainElongationFactor :: real
  sledWeight :: real
  leftChainTolerance :: real
  rightChainTolerance :: real
  rotationDiskRadius :: real
  simpleKinematics :: bool

text \<open>
  The file-scope variables of the kinematics: \<^verbatim>\<open>_sprocketRadius\<close>, the cached motor
  coordinates, and the seed cache \<^verbatim>\<open>_xLastPosition\<close>, \<^verbatim>\<open>_yLastPosition\<close>.
\<close>

record kinematics =
  sprocketRadius :: real
  xCordOfMotor :: real
  yCordOfMotor :: real
  xLastPosition :: real
  yLastPosition :: real

definition KINEMATICS_MAX_GUESS :: int where
  "KINEMATICS_MAX_GUESS = 200"

definition KINEMATICS_MAX_ERR :: real where
  "KINEMATICS_MAX_ERR = 0.01"

text \<open>What \<^verbatim>\<open>triangularForward\<close> prints on \<^verbatim>\<open>Serial\<close> when it gives up.\<close>

datatype serial_msg = Unable_to_find_position real real

section \<open>Kinematics\<close>

definition recomputeGeometry :: "settings \<Rightarrow> kinematics \<Rightarrow> kinematics" where
  "recomputeGeometry s k =
     k\<lparr>xCordOfMotor := distBetweenMotors s / 2,
       yCordOfMotor := machineHeight s / 2.0 + motorOffsetY s\<rparr>"

definition triangularInverse :: "settings \<Rightarrow> kinematics \<Rightarrow> real \<Rightarrow> real \<Rightarrow> real \<times> real" where
  "triangularInverse s k xTarget yTarget =
    (let xxx = xTarget;
         yyy = yTarget;
         Motor1Distance = sqrt ((-1 * xCordOfMotor k - xxx)\<^sup>2 + (yCordOfMotor k - yyy)\<^sup>2);
         Motor2Distance = sqrt ((xCordOfMotor k - xxx)\<^sup>2 + (yCordOfMotor k - yyy)\<^sup>2);
         yDiff = yCordOfMotor k - yTarget;
         Chain1Angle =
           (if chainOverSprocket s = 1
            then arcsin (yDiff / Motor1Distance) + arcsin (sprocketRadius k / Motor1Distance)
            else arcsin (yDiff / Motor1Distance) - arcsin (sprocketRadius k / Motor1Distance));
         Chain2Angle =
           (if chainOverSprocket s = 1
            then arcsin (yDiff / Motor2Distance) + arcsin (sprocketRadius k / Motor2Distance)
            else arcsin (yDiff / Motor2Distance) - arcsin (sprocketRadius k / Motor2Distance));
         Chain1AroundSprocket =
           (if chainOverSprocket s = 1 then sprocketRadius k * Chain1Angle
            else sprocketRadius k * (3.14159 - Chain1Angle));
         Chain2AroundSprocket =
           (if chainOverSprocket s = 1 then sprocketRadius k * Chain2Angle
            else sprocketRadius k * (3.14159 - Chain2Angle));
         xTangent1 =
           (if chainOverSprocket s = 1
            then -1.0 * xCordOfMotor k + sprocketRadius k * sin Chain1Angle
            else -1.0 * xCordOfMotor k - sprocketRadius k * sin Chain1Angle);
         yTangent1 =
           (if chainOverSprocket s = 1
            then yCordOfMotor k + sprocketRadius k * cos Chain1Angle
            else yCordOfMotor k - sprocketRadius k * cos Chain1Angle);
         xTangent2 =
           (if chainOverSprocket s = 1
            then xCordOfMotor k - sprocketRadius k * sin Chain2Angle
            else xCordOfMotor k + sprocketRadius k * sin Chain2Angle);
         yTangent2 =
           (if chainOverSprocket s = 1
            then yCordOfMotor k + sprocketRadius k * cos Chain2Angle
            else yCordOfMotor k - sprocketRadius k * cos Chain2Angle);
         chainDensity = 0.14 * 9.8 / 1000;
         chainElasticity = chainElongationFactor s;
         srsqrd = (sprocketRadius k)\<^sup>2;
         Chain1Straight = sqrt (Motor1Distance\<^sup>2 - srsqrd);
         Chain2Straight = sqrt (Motor2Distance\<^sup>2 - srsqrd);
         totalWeight = sledWeight s + 0.5 * chainDensity * (Chain1Straight + Chain2Straight);
         tensionD = xTangent1 * yTangent2 - xTangent2 * yTangent1 - xTangent1 * yTarget
                    + xTarget * yTangent1 + xTangent2 * yTarget - xTarget * yTangent2;
         tension1 = - (totalWeight * sqrt ((xTangent1 - xTarget)\<^sup>2 + (yTangent1 - yTarget)\<^sup>2)
                        * (xTangent2 - xTarget)) / tensionD;
         tension2 = (totalWeight * sqrt ((xTangent2 - xTarget)\<^sup>2 + (yTangent2 - yTarget)\<^sup>2)
                        * (xTangent1 - xTarget)) / tensionD;
         horizontalTension = tension1 * (xTarget - xTangent1) / Chain1Straight;
         a1 = horizontalTension / chainDensity;
         a2 = horizontalTension / chainDensity;
         chain1 = sqrt ((2 * a1 * sinh ((xTarget - xTangent1) / (2 * a1)))\<^sup>2
                        + (yTangent1 - yTarget)\<^sup>2);
         chain2 = sqrt ((2 * a2 * sinh ((xTangent2 - xTarget) / (2 * a2)))\<^sup>2
                        + (yTangent2 - yTarget)\<^sup>2);
         chain1_total = Chain1AroundSprocket
                        + chain1 / (1.0 + leftChainTolerance s / 100.0) / (1.0 + tension1 * chainElasticity);
         chain2_total = Chain2AroundSprocket
                        + chain2 / (1.0 + rightChainTolerance s / 100.0) / (1.0 + tension2 * chainElasticity)
     in (chain1_total - rotationDiskRadius s, chain2_total - rotationDiskRadius s))"

text \<open>
  The loop of \<^verbatim>\<open>triangularForward\<close>: one call is one pass of \<^verbatim>\<open>while(1)\<close>, entered with
  the current guess and \<^verbatim>\<open>guessCount\<close>. The result is what the pass that breaks writes
  through \<^verbatim>\<open>xPos\<close>, \<^verbatim>\<open>yPos\<close>, with what it printed.
\<close>

function triangularForward_loop ::
  "settings \<Rightarrow> kinematics \<Rightarrow> real \<Rightarrow> real \<Rightarrow> real \<Rightarrow> real \<Rightarrow> int \<Rightarrow> (real \<times> real) \<times> serial_msg list" where
  "triangularForward_loop s k chainALength chainBLength xGuess yGuess guessCount =
    (let (guessLengthA, guessLengthB) = triangularInverse s k xGuess yGuess;
         aChainError = chainALength - guessLengthA;
         bChainError = chainBLength - guessLengthB;
         xGuess' = xGuess + aChainError - bChainError;
         yGuess' = yGuess - aChainError - bChainError;
         guessCount' = guessCount + 1
     in if (\<bar>aChainError\<bar> \<le> KINEMATICS_MAX_ERR \<and> \<bar>bChainError\<bar> \<le> KINEMATICS_MAX_ERR)
           \<or> guessCount' > KINEMATICS_MAX_GUESS
           \<or> guessLengthA > chainLength s
           \<or> guessLengthB > chainLength s
        then (if guessCount' > KINEMATICS_MAX_GUESS
                 \<or> guessLengthA > chainLength s
                 \<or> guessLengthB > chainLength s
              then ((0, 0), [Unable_to_find_position chainALength chainBLength])
              else ((xGuess', yGuess'), []))
        else triangularForward_loop s k chainALength chainBLength xGuess' yGuess' guessCount')"
  by pat_completeness auto
termination
  by (relation "measure (\<lambda>(s, k, a, b, x, y, n). nat (KINEMATICS_MAX_GUESS + 1 - n))")
     (auto simp: KINEMATICS_MAX_GUESS_def)

declare triangularForward_loop.simps [simp del]

text \<open>
  \<^verbatim>\<open>triangularForward(chainALength, chainBLength, &x, &y)\<close>: the pair \<open>(xPos, yPos)\<close> is
  what the two pointers hold on entry, the result what they hold on return.
\<close>

definition triangularForward ::
  "settings \<Rightarrow> kinematics \<Rightarrow> real \<Rightarrow> real \<Rightarrow> real \<times> real \<Rightarrow> (real \<times> real) \<times> serial_msg list" where
  "triangularForward s k chainALength chainBLength pos =
     triangularForward_loop s k chainALength chainBLength (fst pos) (snd pos) 0"

definition triangularSimple :: "settings \<Rightarrow> kinematics \<Rightarrow> real \<Rightarrow> real \<Rightarrow> real \<times> real" where
  "triangularSimple s k aChainLength bChainLength =
    (let x_pos = ((xCordOfMotor k * 2)\<^sup>2 - bChainLength\<^sup>2 + aChainLength\<^sup>2)
                 / (2.0 * (xCordOfMotor k * 2));
         y_pos = sqrt (aChainLength\<^sup>2 - x_pos\<^sup>2);
         x_pos = (-1 * xCordOfMotor k) + x_pos;
         y_pos = yCordOfMotor k - y_pos;
         x_pos = x_pos / XcorrScaling s;
         y_pos = y_pos / YcorrScaling s
     in (x_pos, y_pos))"


text \<open>
  \<^verbatim>\<open>chainToPosition\<close> refreshes the geometry cache and dispatches on
  \<^verbatim>\<open>settings.simpleKinematics\<close>. It returns the updated file-scope variables, the pair
  behind the two pointers, and what was printed.
\<close>

definition chainToPosition ::
  "settings \<Rightarrow> kinematics \<Rightarrow> real \<Rightarrow> real \<Rightarrow> real \<times> real
     \<Rightarrow> kinematics \<times> (real \<times> real) \<times> serial_msg list" where
  "chainToPosition s k aChainLength bChainLength pos =
    (let k' = recomputeGeometry s k
     in if simpleKinematics s
        then (k', triangularSimple s k' aChainLength bChainLength, [])
        else (let (p, out) = triangularForward s k' aChainLength bChainLength pos
              in (k', p, out)))"

definition positionToChain :: "settings \<Rightarrow> kinematics \<Rightarrow> real \<Rightarrow> real \<Rightarrow> kinematics \<times> (real \<times> real)" where
  "positionToChain s k xTarget yTarget =
    (let k' = recomputeGeometry s k in (k', triangularInverse s k' xTarget yTarget))"

section \<open>Build configuration\<close>

text \<open>
  Macros that \<^verbatim>\<open>system.cpp\<close> uses and whose definitions (\<^verbatim>\<open>config.h\<close>, \<^verbatim>\<open>system.h\<close>,
  \<^verbatim>\<open>settings.h\<close>, \<^verbatim>\<open>nuts_bolts.h\<close>, \<^verbatim>\<open>MaslowDue.h\<close>) are not among the sources. They are
  parameters of the model: a value macro is a field of its type, a macro tested with
  \<^verbatim>\<open>#ifdef\<close> is a flag that says whether it is defined.
\<close>

record config =
  LEFT_MOTOR :: nat
  RIGHT_MOTOR :: nat
  HOMING_FORCE_SET_ORIGIN :: bool
  N_STARTUP_LINE :: nat
  EEPROM_LINE_SIZE :: nat
  STATE_IDLE :: "8 word"
  STATE_ALARM :: "8 word"
  STATE_CHECK_MODE :: "8 word"
  STATE_HOMING :: "8 word"
  STATE_CYCLE :: "8 word"
  STATE_HOLD :: "8 word"
  STATE_JOG :: "8 word"
  BITFLAG_HOMING_ENABLE :: "8 word"
  EXEC_SLEEP :: "8 word"
  HOMING_SINGLE_AXIS_COMMANDS :: bool
  ENABLE_BUILD_INFO_WRITE_COMMAND :: bool
  ENABLE_RESTORE_EEPROM_DEFAULT_SETTINGS :: bool
  ENABLE_RESTORE_EEPROM_CLEAR_PARAMETERS :: bool
  ENABLE_RESTORE_EEPROM_WIPE_ALL :: bool

section \<open>Steps to machine position\<close>

text \<open>A conversion of a floating-point value to \<^verbatim>\<open>int32_t\<close>: towards zero.\<close>

definition c_trunc :: "real \<Rightarrow> int" where
  "c_trunc r = (if 0 \<le> r then \<lfloor>r\<rfloor> else \<lceil>r\<rceil>)"

text \<open>
  The value of type \<^verbatim>\<open>float\<close> (IEEE 754 binary32) nearest to a real number, ties to the
  even significand: the real is divided by the spacing of the \<^verbatim>\<open>float\<close> values around it
  (\<open>2 powr (e - 23)\<close> where \<open>2 powr e \<le> \<bar>x\<bar> < 2 powr (e + 1)\<close>, and \<open>2 powr (- 149)\<close>
  below \<open>2 powr (- 126)\<close>), rounded to an integer, and multiplied back. Overflow to an
  infinity is not modelled.
\<close>

definition round_ties_even :: "real \<Rightarrow> int" where
  "round_ties_even q =
    (let f = \<lfloor>q\<rfloor>;
         d = q - real_of_int f
     in if d < 1 / 2 then f
        else if 1 / 2 < d then f + 1
        else if even f then f else f + 1)"

definition float_exponent :: "real \<Rightarrow> int" where
  "float_exponent x = (if \<bar>x\<bar> < 2 powr (- 126) then - 126 else \<lfloor>log 2 \<bar>x\<bar>\<rfloor>)"

definition float_round :: "real \<Rightarrow> real" where
  "float_round x =
    (let ulp = 2 powr (real_of_int (float_exponent x) - 23)
     in real_of_int (round_ties_even (x / ulp)) * ulp)"

text \<open>
  \<^verbatim>\<open>system_convert_maslow_to_xy_steps\<close> passes the addresses of the seed cache to
  \<^verbatim>\<open>chainToPosition\<close>, so what comes back through the pointers is stored in
  \<^verbatim>\<open>_xLastPosition\<close>, \<^verbatim>\<open>_yLastPosition\<close>. The cast \<^verbatim>\<open>(int32_t) _xLastPosition\<close> binds
  tighter than the product; the \<^verbatim>\<open>int32_t\<close> is converted to \<^verbatim>\<open>float\<close> for the product,
  the product is a \<^verbatim>\<open>float\<close>, and it is converted to \<^verbatim>\<open>int32_t\<close> on assignment.
\<close>

definition system_convert_maslow_to_xy_steps ::
  "config \<Rightarrow> settings \<Rightarrow> kinematics \<Rightarrow> int list \<Rightarrow> kinematics \<times> int \<times> int \<times> serial_msg list" where
  "system_convert_maslow_to_xy_steps cfg s k steps =
    (let (k', p, out) =
           chainToPosition s k
             (real_of_int (steps ! LEFT_MOTOR cfg) / steps_per_mm s ! LEFT_MOTOR cfg)
             (real_of_int (steps ! RIGHT_MOTOR cfg) / steps_per_mm s ! RIGHT_MOTOR cfg)
             (xLastPosition k, yLastPosition k);
         k'' = k'\<lparr>xLastPosition := fst p, yLastPosition := snd p\<rparr>;
         x_steps = c_trunc (float_round (float_round (real_of_int (c_trunc (xLastPosition k'')))
                                         * steps_per_mm s ! X_AXIS));
         y_steps = c_trunc (float_round (float_round (real_of_int (c_trunc (yLastPosition k'')))
                                         * steps_per_mm s ! Y_AXIS))
     in (k'', x_steps, y_steps, out))"


section \<open>Travel limits\<close>

text \<open>
  The body of the loop of \<^verbatim>\<open>system_check_travel_limits\<close> for one axis: whether it
  returns \<^verbatim>\<open>true\<close> there. \<^verbatim>\<open>HOMING_FORCE_SET_ORIGIN\<close> takes precedence over the Maslow
  branch, as the \<^verbatim>\<open>#ifdef\<close> chain has it.
\<close>

definition axis_exceeds :: "config \<Rightarrow> settings \<Rightarrow> real list \<Rightarrow> nat \<Rightarrow> bool" where
  "axis_exceeds cfg s target idx =
    (if HOMING_FORCE_SET_ORIGIN cfg
     then (if homing_dir_mask s AND push_bit idx 1 \<noteq> 0
           then target ! idx < 0 \<or> target ! idx > - max_travel s ! idx
           else target ! idx > 0 \<or> target ! idx < max_travel s ! idx)
     else if idx = Z_AXIS
          then target ! idx > zTravelMin s \<or> target ! idx < max_travel s ! idx
          else (let ht = max_travel s ! idx / - 2.0
                in target ! idx < - ht \<or> target ! idx > ht))"

function check_travel_limits_loop :: "config \<Rightarrow> settings \<Rightarrow> real list \<Rightarrow> nat \<Rightarrow> bool" where
  "check_travel_limits_loop cfg s target idx =
    (if idx < N_AXIS
     then (if axis_exceeds cfg s target idx then True
           else check_travel_limits_loop cfg s target (idx + 1))
     else False)"
  by pat_completeness auto
termination
  by (relation "measure (\<lambda>(cfg, s, target, idx). N_AXIS - idx)") auto

declare check_travel_limits_loop.simps [simp del]

definition system_check_travel_limits :: "config \<Rightarrow> settings \<Rightarrow> real list \<Rightarrow> bool" where
  "system_check_travel_limits cfg s target = check_travel_limits_loop cfg s target 0"

section \<open>Machine state and collaborators\<close>

text \<open>
  The status codes, feedback messages and argument constants that \<^verbatim>\<open>system.cpp\<close> names.
  \<open>STATUS_OK\<close> is the code 0, the one \<^verbatim>\<open>if (helper_var)\<close> takes for success;
  \<open>STATUS_OTHER\<close> stands for every other code a collaborator may return.
\<close>

datatype status =
    STATUS_OK
  | STATUS_INVALID_STATEMENT
  | STATUS_BAD_NUMBER_FORMAT
  | STATUS_SETTING_DISABLED
  | STATUS_SETTING_READ_FAIL
  | STATUS_IDLE_ERROR
  | STATUS_CHECK_DOOR
  | STATUS_LINE_LENGTH_EXCEEDED
  | STATUS_OTHER nat

datatype message =
    MESSAGE_ENABLED
  | MESSAGE_DISABLED
  | MESSAGE_ALARM_UNLOCK
  | MESSAGE_RESTORE_DEFAULTS

datatype homing_cycle = HOMING_CYCLE_ALL | HOMING_CYCLE_X | HOMING_CYCLE_Y | HOMING_CYCLE_Z

datatype restore = SETTINGS_RESTORE_DEFAULTS | SETTINGS_RESTORE_PARAMETERS | SETTINGS_RESTORE_ALL

text \<open>
  The calls \<^verbatim>\<open>system.cpp\<close> makes to functions of other files, in the order it makes
  them. A line argument is recorded as the C string it holds.
\<close>

datatype call =
    Call_report_grbl_help
  | Call_report_grbl_settings
  | Call_report_gcode_modes
  | Call_report_ngc_parameters
  | Call_report_feedback_message message
  | Call_report_execute_startup_message string status
  | Call_report_status_message status
  | Call_report_startup_line nat string
  | Call_report_build_info string
  | Call_gc_execute_line string
  | Call_mc_reset
  | Call_mc_homing_cycle homing_cycle
  | Call_st_go_idle
  | Call_settings_read_startup_line nat
  | Call_settings_store_startup_line "8 word" string
  | Call_settings_read_build_info
  | Call_settings_store_build_info string
  | Call_settings_restore restore
  | Call_settings_store_global_setting "8 word" real
  | Call_EEPROM_viewer
  | Call_motorsDisabled

text \<open>
  The state the dispatcher works on: the fields of \<^verbatim>\<open>sys\<close> it reads and writes, the
  real-time flag byte, the settings, the state owned by the collaborators (\<open>ext\<close>: parser,
  planner, EEPROM), and the log of the calls made so far.
\<close>

record 'x machine =
  sys_state :: "8 word"
  sys_abort :: "8 word"
  sys_rt_exec_state :: "8 word"
  settings :: settings
  ext :: 'x
  calls :: "call list"

text \<open>
  The collaborators, as parameters: each may read and change the machine state and returns
  what the C function returns. A function that fills the line buffer returns the new
  buffer. \<^verbatim>\<open>read_float\<close> returns the number and the advanced counter, or \<open>None\<close> for
  \<^verbatim>\<open>false\<close>. The \<^verbatim>\<open>report_...\<close> functions only print and are recorded in the log alone.
\<close>

record 'x collab =
  gc_execute_line :: "string \<Rightarrow> 'x machine \<Rightarrow> status \<times> 'x machine"
  mc_reset :: "'x machine \<Rightarrow> 'x machine"
  mc_homing_cycle :: "homing_cycle \<Rightarrow> 'x machine \<Rightarrow> 'x machine"
  st_go_idle :: "'x machine \<Rightarrow> 'x machine"
  settings_read_startup_line :: "nat \<Rightarrow> string \<Rightarrow> 'x machine \<Rightarrow> (bool \<times> string) \<times> 'x machine"
  settings_store_startup_line :: "8 word \<Rightarrow> string \<Rightarrow> 'x machine \<Rightarrow> 'x machine"
  settings_read_build_info :: "string \<Rightarrow> 'x machine \<Rightarrow> (bool \<times> string) \<times> 'x machine"
  settings_store_build_info :: "string \<Rightarrow> 'x machine \<Rightarrow> 'x machine"
  settings_restore :: "restore \<Rightarrow> 'x machine \<Rightarrow> 'x machine"
  settings_store_global_setting :: "8 word \<Rightarrow> real \<Rightarrow> 'x machine \<Rightarrow> status \<times> 'x machine"
  read_float :: "string \<Rightarrow> nat \<Rightarrow> (real \<times> nat) option"
  EEPROM_viewer :: "'x machine \<Rightarrow> 'x machine"
  motorsDisabled :: "'x machine \<Rightarrow> 'x machine"

text \<open>
  A call appends its entry to the log; whatever the collaborator does to the rest of the
  state, the log is the caller's.
\<close>

definition report :: "call \<Rightarrow> 'x machine \<Rightarrow> 'x machine" where
  "report c m = m\<lparr>calls := calls m @ [c]\<rparr>"

definition logged :: "call \<Rightarrow> ('x machine \<Rightarrow> 'x machine) \<Rightarrow> 'x machine \<Rightarrow> 'x machine" where
  "logged c f m = (f m)\<lparr>calls := calls m @ [c]\<rparr>"

definition logged_r :: "call \<Rightarrow> ('x machine \<Rightarrow> 'r \<times> 'x machine) \<Rightarrow> 'x machine \<Rightarrow> 'r \<times> 'x machine" where
  "logged_r c f m = (let (r, m') = f m in (r, m'\<lparr>calls := calls m @ [c]\<rparr>))"

section \<open>The line buffer\<close>

text \<open>
  \<^verbatim>\<open>char *line\<close> is the list of the buffer's bytes; bytes past the end of the list read
  as NUL, so the literal \<open>''$$''\<close> is the buffer holding \<^verbatim>\<open>"$$"\<close> and its terminator.
  \<^verbatim>\<open>char_counter\<close> and \<^verbatim>\<open>helper_var\<close> index it as natural numbers: a line is shorter than
  256 bytes, so the \<^verbatim>\<open>uint8_t\<close> counters do not wrap on it.
\<close>

definition NUL :: char where
  "NUL = CHR 0x00"

definition line_at :: "string \<Rightarrow> nat \<Rightarrow> char" where
  "line_at line i = (if i < length line then line ! i else NUL)"

definition line_set :: "string \<Rightarrow> nat \<Rightarrow> char \<Rightarrow> string" where
  "line_set line i c =
     (if i < length line then line[i := c]
      else if c = NUL then line
      else line @ replicate (i - length line) NUL @ [c])"

definition c_str :: "string \<Rightarrow> string" where
  "c_str line = takeWhile (\<lambda>c. c \<noteq> NUL) line"

section \<open>Safety door, real-time flags\<close>

text \<open>
  With \<^verbatim>\<open>MASLOWCNC\<close> defined, \<^verbatim>\<open>system_control_get_state\<close> returns its initial
  \<^verbatim>\<open>control_state = 0\<close> and \<^verbatim>\<open>system_check_safety_door_ajar\<close> returns at its first
  statement, \<^verbatim>\<open>return 0\<close>.
\<close>

definition system_control_get_state :: "'x machine \<Rightarrow> 8 word" where
  "system_control_get_state m = 0"

definition system_check_safety_door_ajar :: "'x machine \<Rightarrow> 8 word" where
  "system_check_safety_door_ajar m = 0"

definition system_set_exec_state_flag :: "8 word \<Rightarrow> 'x machine \<Rightarrow> 'x machine" where
  "system_set_exec_state_flag flag_mask m = m\<lparr>sys_rt_exec_state := sys_rt_exec_state m OR flag_mask\<rparr>"

definition system_clear_exec_state_flag :: "8 word \<Rightarrow> 'x machine \<Rightarrow> 'x machine" where
  "system_clear_exec_state_flag flag_mask m =
     m\<lparr>sys_rt_exec_state := sys_rt_exec_state m AND NOT flag_mask\<rparr>"

section \<open>Startup script\<close>

text \<open>One pass of the loop of \<^verbatim>\<open>system_execute_startup\<close>, for slot \<open>n\<close>.\<close>

definition execute_startup_slot ::
  "'x collab \<Rightarrow> nat \<Rightarrow> string \<times> 'x machine \<Rightarrow> string \<times> 'x machine" where
  "execute_startup_slot C n lm =
    (let ((ok, line), m) =
           logged_r (Call_settings_read_startup_line n)
             (settings_read_startup_line C n (fst lm)) (snd lm)
     in if \<not> ok
        then (let line = line_set line 0 NUL
              in (line, report (Call_report_execute_startup_message (c_str line) STATUS_SETTING_READ_FAIL) m))
        else if line_at line 0 \<noteq> NUL
             then (let (status_code, m) = logged_r (Call_gc_execute_line (c_str line)) (gc_execute_line C line) m
                   in (line, report (Call_report_execute_startup_message (c_str line) status_code) m))
             else (line, m))"

text \<open>
  The loop itself, entered with the \<^verbatim>\<open>uint8_t\<close> counter \<open>n\<close>: \<open>n + 1\<close> wraps at 256, so
  with \<open>N_STARTUP_LINE\<close> above 255 the loop would not end.
\<close>

partial_function (option) execute_startup_loop ::
  "config \<Rightarrow> 'x collab \<Rightarrow> 8 word \<Rightarrow> string \<times> 'x machine \<Rightarrow> (string \<times> 'x machine) option" where
  "execute_startup_loop cfg C n lm =
    (if unat n < N_STARTUP_LINE cfg
     then execute_startup_loop cfg C (n + 1) (execute_startup_slot C (unat n) lm)
     else Some lm)"

definition system_execute_startup ::
  "config \<Rightarrow> 'x collab \<Rightarrow> string \<Rightarrow> 'x machine \<Rightarrow> (string \<times> 'x machine) option" where
  "system_execute_startup cfg C line m = execute_startup_loop cfg C 0 (line, m)"

section \<open>The system-command dispatcher\<close>

text \<open>
  The copy loop \<^verbatim>\<open>do { line[char_counter-helper_var] = line[char_counter]; }
  while (line[char_counter++] != 0);\<close> with the final value of \<^verbatim>\<open>char_counter\<close>. The
  counter is a natural number here; the \<^verbatim>\<open>uint8_t\<close> of the code wraps at 256, so the model
  is that of lines shorter than 255 characters.
\<close>

lemma length_line_set_copy:
  "i \<le> j \<Longrightarrow> length (line_set line i (line_at line j)) = length line"
  by (simp add: line_set_def line_at_def)

function shift_line :: "nat \<Rightarrow> string \<Rightarrow> nat \<Rightarrow> string \<times> nat" where
  "shift_line helper_var line char_counter =
    (let line' = line_set line (char_counter - helper_var) (line_at line char_counter)
     in if line_at line' char_counter \<noteq> NUL
        then shift_line helper_var line' (char_counter + 1)
        else (line', char_counter + 1))"
  by pat_completeness auto
termination
proof (relation "measure (\<lambda>(helper_var, line, char_counter). length line - char_counter)")
  show "wf (measure (\<lambda>(helper_var, line, char_counter). length line - char_counter))"
    by simp
next
  fix helper_var :: nat and line :: string and char_counter :: nat and line' :: string
  assume l: "line' = line_set line (char_counter - helper_var) (line_at line char_counter)"
    and c: "line_at line' char_counter \<noteq> NUL"
  have len: "length line' = length line"
    unfolding l by (rule length_line_set_copy) simp
  from c have "char_counter < length line'"
    by (auto simp: line_at_def split: if_splits)
  with len show "((helper_var, line', char_counter + 1), (helper_var, line, char_counter))
      \<in> measure (\<lambda>(helper_var, line, char_counter). length line - char_counter)"
    by simp
qed

declare shift_line.simps [simp del]

text \<open>
  The tail shared by \<^verbatim>\<open>case 'N'\<close> (entered by fall-through with \<^verbatim>\<open>helper_var = true\<close>) and
  \<^verbatim>\<open>default\<close> of the inner switch: \<^verbatim>\<open>$N<n>=<line>\<close> and \<^verbatim>\<open>$<n>=<v>\<close>.
\<close>

definition store_setting ::
  "config \<Rightarrow> 'x collab \<Rightarrow> bool \<Rightarrow> nat \<Rightarrow> string \<Rightarrow> 'x machine \<Rightarrow> status \<times> string \<times> 'x machine" where
  "store_setting cfg C helper_var char_counter line m =
    (case read_float C line char_counter of
       None \<Rightarrow> (STATUS_BAD_NUMBER_FORMAT, line, m)
     | Some (parameter, char_counter) \<Rightarrow>
         if line_at line char_counter \<noteq> CHR ''=''
         then (STATUS_INVALID_STATEMENT, line, m)
         else (let char_counter = char_counter + 1
               in if helper_var
                  then (let (line, char_counter) = shift_line char_counter line char_counter
                        in if char_counter > EEPROM_LINE_SIZE cfg
                           then (STATUS_LINE_LENGTH_EXCEEDED, line, m)
                           else (let (st, m) = logged_r (Call_gc_execute_line (c_str line))
                                                 (gc_execute_line C line) m
                                 in if st \<noteq> STATUS_OK then (st, line, m)
                                    else (let n = word_of_int (c_trunc parameter)
                                          in (STATUS_OK, line,
                                              logged (Call_settings_store_startup_line n (c_str line))
                                                (settings_store_startup_line C n line) m))))
                  else (case read_float C line char_counter of
                          None \<Rightarrow> (STATUS_BAD_NUMBER_FORMAT, line, m)
                        | Some (val, char_counter) \<Rightarrow>
                            if line_at line char_counter \<noteq> NUL \<or> parameter > 255
                            then (STATUS_INVALID_STATEMENT, line, m)
                            else (let n = word_of_int (c_trunc parameter);
                                      (st, m) = logged_r (Call_settings_store_global_setting n val)
                                                  (settings_store_global_setting C n val) m
                                  in (st, line, m)))))"

text \<open>\<^verbatim>\<open>$N\<close> alone: the loop that prints the startup lines, with its \<^verbatim>\<open>uint8_t\<close> counter.\<close>

definition print_startup_slot ::
  "'x collab \<Rightarrow> nat \<Rightarrow> string \<times> 'x machine \<Rightarrow> string \<times> 'x machine" where
  "print_startup_slot C n lm =
    (let ((ok, line), m) =
           logged_r (Call_settings_read_startup_line n)
             (settings_read_startup_line C n (fst lm)) (snd lm)
     in if \<not> ok
        then (line, report (Call_report_status_message STATUS_SETTING_READ_FAIL) m)
        else (line, report (Call_report_startup_line n (c_str line)) m))"

partial_function (option) print_startup_loop ::
  "config \<Rightarrow> 'x collab \<Rightarrow> 8 word \<Rightarrow> string \<times> 'x machine \<Rightarrow> (string \<times> 'x machine) option" where
  "print_startup_loop cfg C helper_var lm =
    (if unat helper_var < N_STARTUP_LINE cfg
     then print_startup_loop cfg C (helper_var + 1) (print_startup_slot C (unat helper_var) lm)
     else Some lm)"

text \<open>\<^verbatim>\<open>case 'I'\<close>: print or store the build info.\<close>

definition execute_build_info ::
  "config \<Rightarrow> 'x collab \<Rightarrow> string \<Rightarrow> 'x machine \<Rightarrow> status \<times> string \<times> 'x machine" where
  "execute_build_info cfg C line m =
    (if line_at line 2 = NUL
     then (let ((ok, line), m) = logged_r Call_settings_read_build_info
                                   (settings_read_build_info C line) m
           in (STATUS_OK, line, report (Call_report_build_info (c_str line)) m))
     else if ENABLE_BUILD_INFO_WRITE_COMMAND cfg
          then (if line_at line 2 \<noteq> CHR ''='' then (STATUS_INVALID_STATEMENT, line, m)
                else (let (line, char_counter) = shift_line 3 line 3
                      in (STATUS_OK, line,
                          logged (Call_settings_store_build_info (c_str line))
                            (settings_store_build_info C line) m)))
          else (STATUS_OK, line, m))"

text \<open>\<^verbatim>\<open>case 'R'\<close>: which restore \<^verbatim>\<open>line[5]\<close> asks for, if the build has it.\<close>

definition restore_request :: "config \<Rightarrow> char \<Rightarrow> restore option" where
  "restore_request cfg c =
    (if c = CHR ''$'' \<and> ENABLE_RESTORE_EEPROM_DEFAULT_SETTINGS cfg then Some SETTINGS_RESTORE_DEFAULTS
     else if c = CHR ''#'' \<and> ENABLE_RESTORE_EEPROM_CLEAR_PARAMETERS cfg then Some SETTINGS_RESTORE_PARAMETERS
     else if c = CHR ''*'' \<and> ENABLE_RESTORE_EEPROM_WIPE_ALL cfg then Some SETTINGS_RESTORE_ALL
     else None)"

definition execute_restore ::
  "config \<Rightarrow> 'x collab \<Rightarrow> string \<Rightarrow> 'x machine \<Rightarrow> status \<times> string \<times> 'x machine" where
  "execute_restore cfg C line m =
    (if line_at line 2 \<noteq> CHR ''S'' \<or> line_at line 3 \<noteq> CHR ''T'' \<or> line_at line 4 \<noteq> CHR ''=''
        \<or> line_at line 6 \<noteq> NUL
     then (STATUS_INVALID_STATEMENT, line, m)
     else (case restore_request cfg (line_at line 5) of
             None \<Rightarrow> (STATUS_INVALID_STATEMENT, line, m)
           | Some r \<Rightarrow>
               (let m = logged (Call_settings_restore r) (settings_restore C r) m;
                    m = report (Call_report_feedback_message MESSAGE_RESTORE_DEFAULTS) m;
                    m = logged Call_mc_reset (mc_reset C) m
                in (STATUS_OK, line, m))))"

text \<open>
  \<^verbatim>\<open>case 'H'\<close>: which cycle the line asks for; \<open>None\<close> is the
  \<^verbatim>\<open>return(STATUS_INVALID_STATEMENT)\<close> of the two \<^verbatim>\<open>else\<close> branches.
\<close>

definition homing_request :: "config \<Rightarrow> string \<Rightarrow> homing_cycle option" where
  "homing_request cfg line =
    (if line_at line 2 = NUL then Some HOMING_CYCLE_ALL
     else if HOMING_SINGLE_AXIS_COMMANDS cfg \<and> line_at line 3 = NUL
          then (if line_at line 2 = CHR ''X'' then Some HOMING_CYCLE_X
                else if line_at line 2 = CHR ''Y'' then Some HOMING_CYCLE_Y
                else if line_at line 2 = CHR ''Z'' then Some HOMING_CYCLE_Z
                else None)
          else None)"

definition execute_homing ::
  "config \<Rightarrow> 'x collab \<Rightarrow> string \<Rightarrow> 'x machine \<Rightarrow> (status \<times> string \<times> 'x machine) option" where
  "execute_homing cfg C line m =
    (if flags (settings m) AND BITFLAG_HOMING_ENABLE cfg = 0
     then Some (STATUS_SETTING_DISABLED, line, m)
     else if system_check_safety_door_ajar m \<noteq> 0
          then Some (STATUS_CHECK_DOOR, line, m)
          else (let m = m\<lparr>sys_state := STATE_HOMING cfg\<rparr>
                in case homing_request cfg line of
                     None \<Rightarrow> Some (STATUS_INVALID_STATEMENT, line, m)
                   | Some cycle \<Rightarrow>
                       (let m = logged (Call_mc_homing_cycle cycle) (mc_homing_cycle C cycle) m
                        in if sys_abort m = 0
                           then (let m = m\<lparr>sys_state := STATE_IDLE cfg\<rparr>;
                                     m = logged Call_st_go_idle (st_go_idle C) m
                                 in if line_at line 2 = NUL
                                    then (case system_execute_startup cfg C line m of
                                            None \<Rightarrow> None
                                          | Some (line, m) \<Rightarrow> Some (STATUS_OK, line, m))
                                    else Some (STATUS_OK, line, m))
                           else Some (STATUS_OK, line, m))))"

text \<open>
  \<^verbatim>\<open>case '$': case 'G': case 'C': case 'X':\<close> of the outer switch, after the check of
  \<^verbatim>\<open>line[2]\<close>.
\<close>

definition execute_query ::
  "config \<Rightarrow> 'x collab \<Rightarrow> string \<Rightarrow> 'x machine \<Rightarrow> status \<times> string \<times> 'x machine" where
  "execute_query cfg C line m =
    (if line_at line 1 = CHR ''$''
     then (if sys_state m AND (STATE_CYCLE cfg OR STATE_HOLD cfg) \<noteq> 0
           then (STATUS_IDLE_ERROR, line, m)
           else (STATUS_OK, line, report Call_report_grbl_settings m))
     else if line_at line 1 = CHR ''G''
     then (STATUS_OK, line, report Call_report_gcode_modes m)
     else if line_at line 1 = CHR ''C''
     then (if sys_state m = STATE_CHECK_MODE cfg
           then (let m = logged Call_mc_reset (mc_reset C) m
                 in (STATUS_OK, line, report (Call_report_feedback_message MESSAGE_DISABLED) m))
           else if sys_state m \<noteq> 0
                then (STATUS_IDLE_ERROR, line, m)
                else (let m = m\<lparr>sys_state := STATE_CHECK_MODE cfg\<rparr>
                      in (STATUS_OK, line, report (Call_report_feedback_message MESSAGE_ENABLED) m)))
     else if line_at line 1 = CHR ''X''
     then (if sys_state m = STATE_ALARM cfg
           then (if system_check_safety_door_ajar m \<noteq> 0
                 then (STATUS_CHECK_DOOR, line, m)
                 else (let m = report (Call_report_feedback_message MESSAGE_ALARM_UNLOCK) m
                       in (STATUS_OK, line, m\<lparr>sys_state := STATE_IDLE cfg\<rparr>)))
           else (STATUS_OK, line, m))
     else (STATUS_OK, line, m))"

text \<open>
  \<^verbatim>\<open>system_execute_line\<close>: the status returned, the line buffer and the machine state
  afterwards; \<open>None\<close> when a loop over the startup lines does not end.
\<close>

definition system_execute_line ::
  "config \<Rightarrow> 'x collab \<Rightarrow> string \<Rightarrow> 'x machine \<Rightarrow> (status \<times> string \<times> 'x machine) option" where
  "system_execute_line cfg C line m =
    (if line_at line 1 = NUL
     then Some (STATUS_OK, line, report Call_report_grbl_help m)
     else if line_at line 1 = CHR ''J''
     then (if sys_state m \<noteq> STATE_IDLE cfg \<and> sys_state m \<noteq> STATE_JOG cfg
           then Some (STATUS_IDLE_ERROR, line, m)
           else if line_at line 2 \<noteq> CHR ''=''
                then Some (STATUS_INVALID_STATEMENT, line, m)
                else (let (st, m) = logged_r (Call_gc_execute_line (c_str line)) (gc_execute_line C line) m
                      in Some (st, line, m)))
     else if line_at line 1 = CHR ''$'' \<or> line_at line 1 = CHR ''G''
             \<or> line_at line 1 = CHR ''C'' \<or> line_at line 1 = CHR ''X''
     then (if line_at line 2 \<noteq> NUL
           then Some (STATUS_INVALID_STATEMENT, line, m)
           else Some (execute_query cfg C line m))
     else (if \<not> (sys_state m = STATE_IDLE cfg \<or> sys_state m = STATE_ALARM cfg)
           then Some (STATUS_IDLE_ERROR, line, m)
           else if line_at line 1 = CHR ''|''
           then Some (STATUS_OK, line, logged Call_EEPROM_viewer (EEPROM_viewer C) m)
           else if line_at line 1 = CHR ''#''
           then (if line_at line 2 \<noteq> NUL
                 then Some (STATUS_INVALID_STATEMENT, line, m)
                 else Some (STATUS_OK, line, report Call_report_ngc_parameters m))
           else if line_at line 1 = CHR ''H''
           then execute_homing cfg C line m
           else if line_at line 1 = CHR ''S''
           then (if line_at line 2 \<noteq> CHR ''L'' \<or> line_at line 3 \<noteq> CHR ''P'' \<or> line_at line 4 \<noteq> NUL
                 then Some (STATUS_INVALID_STATEMENT, line, m)
                 else (let m = system_set_exec_state_flag (EXEC_SLEEP cfg) m;
                           m = logged Call_motorsDisabled (motorsDisabled C) m
                       in Some (STATUS_OK, line, m)))
           else if line_at line 1 = CHR ''I''
           then Some (execute_build_info cfg C line m)
           else if line_at line 1 = CHR ''R''
           then Some (execute_restore cfg C line m)
           else if line_at line 1 = CHR ''N''
           then (if line_at line 2 = NUL
                 then (case print_startup_loop cfg C 0 (line, m) of
                         None \<Rightarrow> None
                       | Some (line, m) \<Rightarrow> Some (STATUS_OK, line, m))
                 else if sys_state m \<noteq> STATE_IDLE cfg
                      then Some (STATUS_IDLE_ERROR, line, m)
                      else Some (store_setting cfg C True 2 line m))
           else Some (store_setting cfg C False 1 line m)))"

section \<open>The forward solver, pass by pass\<close>

text \<open>
  The guess of \<^verbatim>\<open>triangularForward\<close> after \<open>n\<close> corrections, from the seed: each
  correction adds \<open>e\<^sub>a - e\<^sub>b\<close> to x and subtracts \<open>e\<^sub>a + e\<^sub>b\<close> from y, where \<open>e\<^sub>a\<close>, \<open>e\<^sub>b\<close> are
  the differences between the target chain lengths and those of the current guess.
\<close>

primrec forward_guess ::
  "settings \<Rightarrow> kinematics \<Rightarrow> real \<Rightarrow> real \<Rightarrow> real \<times> real \<Rightarrow> nat \<Rightarrow> real \<times> real" where
  "forward_guess s k chainALength chainBLength seed 0 = seed"
| "forward_guess s k chainALength chainBLength seed (Suc n) =
    (let g = forward_guess s k chainALength chainBLength seed n;
         l = triangularInverse s k (fst g) (snd g);
         aChainError = chainALength - fst l;
         bChainError = chainBLength - snd l
     in (fst g + aChainError - bChainError, snd g - aChainError - bChainError))"

text \<open>Both chain errors of a guess are at most 0.01 in absolute value.\<close>

definition chain_errors_small ::
  "settings \<Rightarrow> kinematics \<Rightarrow> real \<Rightarrow> real \<Rightarrow> real \<times> real \<Rightarrow> bool" where
  "chain_errors_small s k chainALength chainBLength g =
    (let l = triangularInverse s k (fst g) (snd g)
     in \<bar>chainALength - fst l\<bar> \<le> 0.01 \<and> \<bar>chainBLength - snd l\<bar> \<le> 0.01)"

text \<open>A chain length of a guess exceeds \<^verbatim>\<open>settings.chainLength\<close>.\<close>

definition guess_too_long :: "settings \<Rightarrow> kinematics \<Rightarrow> real \<times> real \<Rightarrow> bool" where
  "guess_too_long s k g =
    (let l = triangularInverse s k (fst g) (snd g)
     in fst l > chainLength s \<or> snd l > chainLength s)"

text \<open>The forward solver printed its give-up message: it left the loop by a guard.\<close>

definition forward_gave_up :: "(real \<times> real) \<times> serial_msg list \<Rightarrow> bool" where
  "forward_gave_up r = (snd r \<noteq> [])"

section \<open>The workspace and the round trip\<close>

text \<open>
  The reachable workspace, in the words of the spec: farther than the sprocket radius
  from each motor anchor, and below the motor plane.
\<close>

definition in_workspace :: "kinematics \<Rightarrow> real \<Rightarrow> real \<Rightarrow> bool" where
  "in_workspace k x y =
    (sprocketRadius k < sqrt ((- xCordOfMotor k - x)\<^sup>2 + (yCordOfMotor k - y)\<^sup>2)
     \<and> sprocketRadius k < sqrt ((xCordOfMotor k - x)\<^sup>2 + (yCordOfMotor k - y)\<^sup>2)
     \<and> y < yCordOfMotor k)"


section \<open>The two halves of the inverse kinematics\<close>

text \<open>
  \<^verbatim>\<open>triangularInverse\<close> once more, cut in two for the proofs about it: up to the tangent
  points and the straight chain lengths (a function of the geometry and the target), and
  from \<^verbatim>\<open>double sledWeight\<close> on (a function of the settings, the target and the values
  of the first half: the two arcs around the sprockets, the two tangent points, the two
  straight lengths). Lemma \<open>triangularInverse_halves\<close> below shows that
  \<^verbatim>\<open>triangularInverse\<close> is the second applied to the first.
\<close>

definition tangent_geometry ::
  "settings \<Rightarrow> kinematics \<Rightarrow> real \<Rightarrow> real
     \<Rightarrow> real \<times> real \<times> real \<times> real \<times> real \<times> real \<times> real \<times> real" where
  "tangent_geometry s k xTarget yTarget =
    (let xxx = xTarget;
         yyy = yTarget;
         Motor1Distance = sqrt ((-1 * xCordOfMotor k - xxx)\<^sup>2 + (yCordOfMotor k - yyy)\<^sup>2);
         Motor2Distance = sqrt ((xCordOfMotor k - xxx)\<^sup>2 + (yCordOfMotor k - yyy)\<^sup>2);
         yDiff = yCordOfMotor k - yTarget;
         Chain1Angle =
           (if chainOverSprocket s = 1
            then arcsin (yDiff / Motor1Distance) + arcsin (sprocketRadius k / Motor1Distance)
            else arcsin (yDiff / Motor1Distance) - arcsin (sprocketRadius k / Motor1Distance));
         Chain2Angle =
           (if chainOverSprocket s = 1
            then arcsin (yDiff / Motor2Distance) + arcsin (sprocketRadius k / Motor2Distance)
            else arcsin (yDiff / Motor2Distance) - arcsin (sprocketRadius k / Motor2Distance));
         Chain1AroundSprocket =
           (if chainOverSprocket s = 1 then sprocketRadius k * Chain1Angle
            else sprocketRadius k * (3.14159 - Chain1Angle));
         Chain2AroundSprocket =
           (if chainOverSprocket s = 1 then sprocketRadius k * Chain2Angle
            else sprocketRadius k * (3.14159 - Chain2Angle));
         xTangent1 =
           (if chainOverSprocket s = 1
            then -1.0 * xCordOfMotor k + sprocketRadius k * sin Chain1Angle
            else -1.0 * xCordOfMotor k - sprocketRadius k * sin Chain1Angle);
         yTangent1 =
           (if chainOverSprocket s = 1
            then yCordOfMotor k + sprocketRadius k * cos Chain1Angle
            else yCordOfMotor k - sprocketRadius k * cos Chain1Angle);
         xTangent2 =
           (if chainOverSprocket s = 1
            then xCordOfMotor k - sprocketRadius k * sin Chain2Angle
            else xCordOfMotor k + sprocketRadius k * sin Chain2Angle);
         yTangent2 =
           (if chainOverSprocket s = 1
            then yCordOfMotor k + sprocketRadius k * cos Chain2Angle
            else yCordOfMotor k - sprocketRadius k * cos Chain2Angle);
         srsqrd = (sprocketRadius k)\<^sup>2;
         Chain1Straight = sqrt (Motor1Distance\<^sup>2 - srsqrd);
         Chain2Straight = sqrt (Motor2Distance\<^sup>2 - srsqrd)
     in (Chain1AroundSprocket, Chain2AroundSprocket, xTangent1, yTangent1, xTangent2, yTangent2,
         Chain1Straight, Chain2Straight))"

definition catenary_lengths ::
  "settings \<Rightarrow> real \<Rightarrow> real
     \<Rightarrow> real \<times> real \<times> real \<times> real \<times> real \<times> real \<times> real \<times> real \<Rightarrow> real \<times> real" where
  "catenary_lengths s xTarget yTarget g =
    (case g of
       (Chain1AroundSprocket, Chain2AroundSprocket, xTangent1, yTangent1, xTangent2, yTangent2,
        Chain1Straight, Chain2Straight) \<Rightarrow>
    (let chainDensity = 0.14 * 9.8 / 1000;
         chainElasticity = chainElongationFactor s;
         totalWeight = sledWeight s + 0.5 * chainDensity * (Chain1Straight + Chain2Straight);
         tensionD = xTangent1 * yTangent2 - xTangent2 * yTangent1 - xTangent1 * yTarget
                    + xTarget * yTangent1 + xTangent2 * yTarget - xTarget * yTangent2;
         tension1 = - (totalWeight * sqrt ((xTangent1 - xTarget)\<^sup>2 + (yTangent1 - yTarget)\<^sup>2)
                        * (xTangent2 - xTarget)) / tensionD;
         tension2 = (totalWeight * sqrt ((xTangent2 - xTarget)\<^sup>2 + (yTangent2 - yTarget)\<^sup>2)
                        * (xTangent1 - xTarget)) / tensionD;
         horizontalTension = tension1 * (xTarget - xTangent1) / Chain1Straight;
         a1 = horizontalTension / chainDensity;
         a2 = horizontalTension / chainDensity;
         chain1 = sqrt ((2 * a1 * sinh ((xTarget - xTangent1) / (2 * a1)))\<^sup>2
                        + (yTangent1 - yTarget)\<^sup>2);
         chain2 = sqrt ((2 * a2 * sinh ((xTangent2 - xTarget) / (2 * a2)))\<^sup>2
                        + (yTangent2 - yTarget)\<^sup>2);
         chain1_total = Chain1AroundSprocket
                        + chain1 / (1.0 + leftChainTolerance s / 100.0) / (1.0 + tension1 * chainElasticity);
         chain2_total = Chain2AroundSprocket
                        + chain2 / (1.0 + rightChainTolerance s / 100.0) / (1.0 + tension2 * chainElasticity)
     in (chain1_total - rotationDiskRadius s, chain2_total - rotationDiskRadius s)))"



section \<open>Observations on the call log\<close>

text \<open>
  What one slot of the startup script adds to the call log, in the words of the spec: read
  the persisted line; if the read fails, report a read-fail status; if the line is
  non-empty, submit it to the G-code collaborator and report the status it returns.
\<close>

definition startup_slot_calls :: "'x collab \<Rightarrow> nat \<Rightarrow> string \<times> 'x machine \<Rightarrow> call list" where
  "startup_slot_calls C n lm =
    (let rd = settings_read_startup_line C n (fst lm) (snd lm);
         ok = fst (fst rd);
         line = snd (fst rd);
         m = (snd rd)\<lparr>calls := calls (snd lm) @ [Call_settings_read_startup_line n]\<rparr>
     in Call_settings_read_startup_line n #
        (if \<not> ok
         then [Call_report_execute_startup_message [] STATUS_SETTING_READ_FAIL]
         else if line_at line 0 \<noteq> NUL
              then [Call_gc_execute_line (c_str line),
                    Call_report_execute_startup_message (c_str line) (fst (gc_execute_line C line m))]
              else []))"

fun is_startup_read :: "call \<Rightarrow> bool" where
  "is_startup_read (Call_settings_read_startup_line n) = True"
| "is_startup_read c = False"

section \<open>Concrete configurations\<close>

text \<open>
  A build and a machine to evaluate the model on. The state and flag values are those of
  Grbl 1.1 (\<^verbatim>\<open>STATE_IDLE\<close> is 0, every other state one bit); the motor indices alias the
  X and Y axes. The geometry is the one of the spec's concrete scenarios, with the travel
  limits of scenario E3.
\<close>

definition example_config :: config where
  "example_config =
    \<lparr>LEFT_MOTOR = 0, RIGHT_MOTOR = 1, HOMING_FORCE_SET_ORIGIN = False,
     N_STARTUP_LINE = 2, EEPROM_LINE_SIZE = 80,
     STATE_IDLE = 0, STATE_ALARM = 1, STATE_CHECK_MODE = 2, STATE_HOMING = 4,
     STATE_CYCLE = 8, STATE_HOLD = 16, STATE_JOG = 32,
     BITFLAG_HOMING_ENABLE = 16, EXEC_SLEEP = 128,
     HOMING_SINGLE_AXIS_COMMANDS = False, ENABLE_BUILD_INFO_WRITE_COMMAND = True,
     ENABLE_RESTORE_EEPROM_DEFAULT_SETTINGS = True,
     ENABLE_RESTORE_EEPROM_CLEAR_PARAMETERS = True,
     ENABLE_RESTORE_EEPROM_WIPE_ALL = True\<rparr>"

definition example_settings :: settings where
  "example_settings =
    \<lparr>steps_per_mm = [100, 100, 100], max_travel = [-2000, -1500, -100],
     flags = 0, homing_dir_mask = 0, zTravelMin = 0,
     distBetweenMotors = 3000, machineHeight = 2000, motorOffsetY = 200,
     XcorrScaling = 1, YcorrScaling = 1, chainOverSprocket = 1, chainLength = 3360,
     chainElongationFactor = 8 / 100000, sledWeight = 45,
     leftChainTolerance = 0, rightChainTolerance = 0, rotationDiskRadius = 139,
     simpleKinematics = False\<rparr>"

definition example_kinematics :: kinematics where
  "example_kinematics =
    \<lparr>sprocketRadius = 10.1, xCordOfMotor = 1500, yCordOfMotor = 1200,
     xLastPosition = 0, yLastPosition = 0\<rparr>"

text \<open>
  The same machine with a chain of 1000 mm and no chain stretch: too short a chain for
  the middle of the sheet, so the forward solver gives up there.
\<close>

definition short_chain_settings :: settings where
  "short_chain_settings = example_settings\<lparr>chainLength := 1000, chainElongationFactor := 0\<rparr>"



text \<open>
  The example machine with a left chain tolerance of 1 percent, a right one of 0, and no
  chain stretch.
\<close>

definition uneven_tolerance_settings :: settings where
  "uneven_tolerance_settings =
    example_settings\<lparr>leftChainTolerance := 1, chainElongationFactor := 0\<rparr>"

text \<open>
  Collaborators to evaluate the dispatcher with: startup slot 0 fails to read, slot 1
  holds \<^verbatim>\<open>G21\<close>; the parser accepts every line; everything else leaves the state as it is.
\<close>

definition example_collab :: "unit collab" where
  "example_collab =
    \<lparr>gc_execute_line = (\<lambda>line m. (STATUS_OK, m)),
     mc_reset = (\<lambda>m. m),
     mc_homing_cycle = (\<lambda>cycle m. m),
     st_go_idle = (\<lambda>m. m),
     settings_read_startup_line = (\<lambda>n line m. if n = 1 then ((True, ''G21''), m) else ((False, line), m)),
     settings_store_startup_line = (\<lambda>n line m. m),
     settings_read_build_info = (\<lambda>line m. ((True, line), m)),
     settings_store_build_info = (\<lambda>line m. m),
     settings_restore = (\<lambda>r m. m),
     settings_store_global_setting = (\<lambda>n val m. (STATUS_OK, m)),
     read_float = (\<lambda>line char_counter. None),
     EEPROM_viewer = (\<lambda>m. m),
     motorsDisabled = (\<lambda>m. m)\<rparr>"

definition example_machine :: "8 word \<Rightarrow> unit machine" where
  "example_machine st =
    \<lparr>sys_state = st, sys_abort = 0, sys_rt_exec_state = 0, settings = example_settings,
     ext = (), calls = []\<rparr>"

section \<open>Properties: travel limits\<close>

lemma check_travel_limits_loop_axes:
  "check_travel_limits_loop cfg s target 0 =
     (axis_exceeds cfg s target 0 \<or> axis_exceeds cfg s target 1 \<or> axis_exceeds cfg s target 2)"
proof -
  have l3: "check_travel_limits_loop cfg s target (Suc (Suc (Suc 0))) = False"
    by (subst check_travel_limits_loop.simps) (simp add: N_AXIS_def)
  have l2: "check_travel_limits_loop cfg s target (Suc (Suc 0)) =
      axis_exceeds cfg s target (Suc (Suc 0))"
    by (subst check_travel_limits_loop.simps) (simp add: N_AXIS_def l3)
  have l1: "check_travel_limits_loop cfg s target (Suc 0) =
      (axis_exceeds cfg s target (Suc 0) \<or> axis_exceeds cfg s target (Suc (Suc 0)))"
    by (subst check_travel_limits_loop.simps) (simp add: N_AXIS_def l2)
  have l0: "check_travel_limits_loop cfg s target 0 =
      (axis_exceeds cfg s target 0 \<or> axis_exceeds cfg s target (Suc 0)
        \<or> axis_exceeds cfg s target (Suc (Suc 0)))"
    by (subst check_travel_limits_loop.simps) (simp add: N_AXIS_def l1)
  show ?thesis
    by (simp add: l0 numeral_2_eq_2)
qed

text \<open>
  Claim C4. In a build whose travel check is the Maslow branch (\<^verbatim>\<open>HOMING_FORCE_SET_ORIGIN\<close>
  not defined), \<^verbatim>\<open>system_check_travel_limits\<close> returns true exactly when the Z component
  is outside \<open>[max_travel[Z], zTravelMin]\<close> or the X or the Y component is outside
  \<open>[-(-max_travel[axis]/2), -max_travel[axis]/2]\<close>. With \<open>max_travel = [-2000, -1500, -100]\<close>
  and \<open>zTravelMin = 0\<close> the target \<open>[0, 0, -50]\<close> gives false and \<open>[0, 0, 5]\<close> gives true.
\<close>

theorem travel_limits_maslow:
  assumes "\<not> HOMING_FORCE_SET_ORIGIN cfg"
  shows "(system_check_travel_limits cfg s target \<longleftrightarrow>
            (target ! Z_AXIS < max_travel s ! Z_AXIS \<or> zTravelMin s < target ! Z_AXIS)
            \<or> (target ! X_AXIS < - (- max_travel s ! X_AXIS / 2)
                \<or> - max_travel s ! X_AXIS / 2 < target ! X_AXIS)
            \<or> (target ! Y_AXIS < - (- max_travel s ! Y_AXIS / 2)
                \<or> - max_travel s ! Y_AXIS / 2 < target ! Y_AXIS))
         \<and> (max_travel s = [-2000, -1500, -100] \<and> zTravelMin s = 0 \<longrightarrow>
              \<not> system_check_travel_limits cfg s [0, 0, -50]
              \<and> system_check_travel_limits cfg s [0, 0, 5])"
  using assms
  by (auto simp: system_check_travel_limits_def check_travel_limits_loop_axes axis_exceeds_def
      X_AXIS_def Y_AXIS_def Z_AXIS_def Let_def)

theorem travel_limits_maslow_witness:
  "\<not> system_check_travel_limits example_config example_settings [0, 0, -50]
   \<and> system_check_travel_limits example_config example_settings [0, 0, 5]
   \<and> system_check_travel_limits example_config example_settings [1000.5, 0, -50]
   \<and> \<not> system_check_travel_limits example_config example_settings [-1000, 750, -100]"
  using travel_limits_maslow [of example_config example_settings "[0, 0, -50]"]
    travel_limits_maslow [of example_config example_settings "[1000.5, 0, -50]"]
    travel_limits_maslow [of example_config example_settings "[-1000, 750, -100]"]
  by (simp add: example_config_def example_settings_def X_AXIS_def Y_AXIS_def Z_AXIS_def)

section \<open>Properties: the dispatcher\<close>

lemma c_str_at: "i < length (c_str line) \<Longrightarrow> line_at line i = c_str line ! i"
  unfolding c_str_def line_at_def
  using length_takeWhile_le [of "\<lambda>c. c \<noteq> NUL" line]
  by (simp add: takeWhile_nth)

lemma c_str_end: "line_at line (length (c_str line)) = NUL"
  unfolding c_str_def line_at_def
  using nth_length_takeWhile [of "\<lambda>c. c \<noteq> NUL" line]
  by auto

lemma c_str_two_chars:
  assumes "c_str line = [a, b]"
  shows "line_at line 1 = b" and "line_at line 2 = NUL"
  using c_str_at [of 1 line] c_str_end [of line] assms by (simp_all add: numeral_2_eq_2)

lemma word_and_or_self: "(x :: 8 word) AND (x OR y) = x" "(y :: 8 word) AND (x OR y) = y"
  by (auto simp: bit_eq_iff bit_and_iff bit_or_iff)

text \<open>
  Claim C5. When the machine state is Cycle or Hold, the line \<^verbatim>\<open>$$\<close> returns
  \<open>STATUS_IDLE_ERROR\<close>; the line buffer and the whole machine state (\<^verbatim>\<open>sys\<close>, the
  settings, the collaborators' state and the call log, so nothing is printed) are as
  before. The state test is the mask \<^verbatim>\<open>sys.state & (STATE_CYCLE | STATE_HOLD)\<close>, so the two
  state codes must not be 0.
\<close>

theorem settings_query_blocked:
  assumes "c_str line = ''$$''"
    and "sys_state m = STATE_CYCLE cfg \<or> sys_state m = STATE_HOLD cfg"
    and "STATE_CYCLE cfg \<noteq> 0" and "STATE_HOLD cfg \<noteq> 0"
  shows "system_execute_line cfg C line m = Some (STATUS_IDLE_ERROR, line, m)"
  using assms(2-4) c_str_two_chars [OF assms(1)]
  by (auto simp: system_execute_line_def execute_query_def NUL_def word_and_or_self)

theorem settings_query_blocked_witness:
  "system_execute_line example_config example_collab ''$$'' (example_machine 8) =
     Some (STATUS_IDLE_ERROR, ''$$'', example_machine 8)
   \<and> system_execute_line example_config example_collab ''$$'' (example_machine 16) =
     Some (STATUS_IDLE_ERROR, ''$$'', example_machine 16)
   \<and> sys_state (example_machine 8) = STATE_CYCLE example_config
   \<and> sys_state (example_machine 16) = STATE_HOLD example_config"
  using settings_query_blocked [of "''$$''" "example_machine 8" example_config example_collab]
    settings_query_blocked [of "''$$''" "example_machine 16" example_config example_collab]
  by (simp add: c_str_def NUL_def example_config_def example_machine_def)

text \<open>
  Claim C6. The line \<^verbatim>\<open>$C\<close>: from Idle it sets the state to CheckMode, reports
  \<open>MESSAGE_ENABLED\<close> and returns \<open>STATUS_OK\<close>; from CheckMode it calls \<^verbatim>\<open>mc_reset\<close>, reports
  \<open>MESSAGE_DISABLED\<close> and returns \<open>STATUS_OK\<close>; from every other state it returns
  \<open>STATUS_IDLE_ERROR\<close> and leaves everything unchanged. Idle is the code 0 (the test is
  \<^verbatim>\<open>if (sys.state)\<close>) and CheckMode another code.
\<close>

theorem check_mode_toggle:
  assumes "c_str line = ''$C''"
    and "STATE_IDLE cfg = 0" and "STATE_CHECK_MODE cfg \<noteq> 0"
  shows "(sys_state m = STATE_IDLE cfg \<longrightarrow>
            system_execute_line cfg C line m =
              Some (STATUS_OK, line,
                    report (Call_report_feedback_message MESSAGE_ENABLED)
                      (m\<lparr>sys_state := STATE_CHECK_MODE cfg\<rparr>)))
       \<and> (sys_state m = STATE_CHECK_MODE cfg \<longrightarrow>
            system_execute_line cfg C line m =
              Some (STATUS_OK, line,
                    report (Call_report_feedback_message MESSAGE_DISABLED)
                      (logged Call_mc_reset (mc_reset C) m)))
       \<and> (sys_state m \<noteq> STATE_IDLE cfg \<and> sys_state m \<noteq> STATE_CHECK_MODE cfg \<longrightarrow>
            system_execute_line cfg C line m = Some (STATUS_IDLE_ERROR, line, m))"
  using assms(2-3) c_str_two_chars [OF assms(1)]
  by (auto simp: system_execute_line_def execute_query_def NUL_def Let_def)

theorem check_mode_toggle_witness:
  "system_execute_line example_config example_collab ''$C'' (example_machine 0) =
     Some (STATUS_OK, ''$C'',
           (example_machine 2)\<lparr>calls := [Call_report_feedback_message MESSAGE_ENABLED]\<rparr>)
   \<and> system_execute_line example_config example_collab ''$C'' (example_machine 2) =
     Some (STATUS_OK, ''$C'',
           (example_machine 2)\<lparr>calls := [Call_mc_reset, Call_report_feedback_message MESSAGE_DISABLED]\<rparr>)
   \<and> system_execute_line example_config example_collab ''$C'' (example_machine 1) =
     Some (STATUS_IDLE_ERROR, ''$C'', example_machine 1)"
  using check_mode_toggle [of "''$C''" example_config "example_machine 0" example_collab]
    check_mode_toggle [of "''$C''" example_config "example_machine 2" example_collab]
    check_mode_toggle [of "''$C''" example_config "example_machine 1" example_collab]
  by (simp add: c_str_def NUL_def example_config_def example_machine_def example_collab_def
      report_def logged_def)

section \<open>Properties: the startup script\<close>

lemma unat_succ_small: "unat (n :: 8 word) < 255 \<Longrightarrow> unat (n + 1) = Suc (unat n)"
  by (simp add: unat_word_ariths)

lemma execute_startup_loop_fold:
  assumes "N_STARTUP_LINE cfg \<le> 255"
  shows "unat n \<le> N_STARTUP_LINE cfg \<Longrightarrow>
    execute_startup_loop cfg C n lm =
      Some (fold (execute_startup_slot C) [unat n..<N_STARTUP_LINE cfg] lm)"
proof (induction "N_STARTUP_LINE cfg - unat n" arbitrary: n lm)
  case 0
  then show ?case
    by (subst execute_startup_loop.simps) simp
next
  case (Suc d)
  from Suc.hyps(2) have lt: "unat n < N_STARTUP_LINE cfg" by simp
  with assms have small: "unat n < 255" by simp
  have step: "unat (n + 1) = Suc (unat n)"
    using small by (rule unat_succ_small)
  have "execute_startup_loop cfg C (n + 1) (execute_startup_slot C (unat n) lm) =
      Some (fold (execute_startup_slot C) [unat (n + 1)..<N_STARTUP_LINE cfg]
              (execute_startup_slot C (unat n) lm))"
    using Suc.hyps(2) lt by (intro Suc.hyps(1)) (simp_all add: step)
  then show ?case
    using lt by (subst execute_startup_loop.simps) (simp add: step upt_conv_Cons)
qed

lemma system_execute_startup_fold:
  "N_STARTUP_LINE cfg \<le> 255 \<Longrightarrow>
   system_execute_startup cfg C line m =
     Some (fold (execute_startup_slot C) [0..<N_STARTUP_LINE cfg] (line, m))"
  using execute_startup_loop_fold [of cfg 0 C "(line, m)"]
  by (simp add: system_execute_startup_def)

lemma c_str_cleared: "c_str (line_set line 0 NUL) = []"
  by (cases line) (simp_all add: c_str_def line_set_def)

lemma execute_startup_slot_calls:
  "calls (snd (execute_startup_slot C n lm)) = calls (snd lm) @ startup_slot_calls C n lm"
  by (auto simp: execute_startup_slot_def startup_slot_calls_def logged_r_def report_def
      c_str_cleared Let_def split: prod.splits)

lemma fold_startup_reads:
  "filter is_startup_read (calls (snd (fold (execute_startup_slot C) [i..<j] lm))) =
     filter is_startup_read (calls (snd lm)) @ map Call_settings_read_startup_line [i..<j]"
proof (induction "j - i" arbitrary: i lm)
  case 0
  then show ?case by simp
next
  case (Suc d)
  then have lt: "i < j" by simp
  have one: "filter is_startup_read (calls (snd (execute_startup_slot C i lm))) =
      filter is_startup_read (calls (snd lm)) @ [Call_settings_read_startup_line i]"
    by (simp add: execute_startup_slot_calls startup_slot_calls_def Let_def)
  have "filter is_startup_read
          (calls (snd (fold (execute_startup_slot C) [Suc i..<j] (execute_startup_slot C i lm)))) =
        filter is_startup_read (calls (snd (execute_startup_slot C i lm)))
          @ map Call_settings_read_startup_line [Suc i..<j]"
    using Suc.hyps(2) by (intro Suc.hyps(1)) simp
  then show ?case
    using lt by (simp add: upt_conv_Cons one)
qed

text \<open>
  Claim C8. With at most 255 startup lines (the loop counter is a \<^verbatim>\<open>uint8_t\<close>),
  \<^verbatim>\<open>system_execute_startup\<close> returns, and what it returns is the loop body applied to the
  slots \<open>0, ..., N_STARTUP_LINE - 1\<close> in this order, whatever the earlier slots did. Each
  slot adds to the call log the read of its line, then the read-fail report if the read
  failed, or the submission to \<^verbatim>\<open>gc_execute_line\<close> and the report of the status it
  returned if the line is not empty. The reads in the log are those of all the slots, in
  order.
\<close>

theorem startup_runs_every_slot:
  assumes "N_STARTUP_LINE cfg \<le> 255"
  shows "system_execute_startup cfg C line m =
           Some (fold (execute_startup_slot C) [0..<N_STARTUP_LINE cfg] (line, m))
       \<and> (\<forall>n lm. calls (snd (execute_startup_slot C n lm)) = calls (snd lm) @ startup_slot_calls C n lm)
       \<and> (\<exists>line' m'. system_execute_startup cfg C line m = Some (line', m')
            \<and> filter is_startup_read (calls m') =
                filter is_startup_read (calls m) @ map Call_settings_read_startup_line [0..<N_STARTUP_LINE cfg])"
proof (intro conjI allI)
  show a: "system_execute_startup cfg C line m =
      Some (fold (execute_startup_slot C) [0..<N_STARTUP_LINE cfg] (line, m))"
    using assms by (rule system_execute_startup_fold)
  show "calls (snd (execute_startup_slot C n lm)) = calls (snd lm) @ startup_slot_calls C n lm" for n lm
    by (rule execute_startup_slot_calls)
  obtain line' m' where r: "fold (execute_startup_slot C) [0..<N_STARTUP_LINE cfg] (line, m) = (line', m')"
    by (cases "fold (execute_startup_slot C) [0..<N_STARTUP_LINE cfg] (line, m)")
  have "filter is_startup_read (calls m') =
      filter is_startup_read (calls m) @ map Call_settings_read_startup_line [0..<N_STARTUP_LINE cfg]"
    using fold_startup_reads [of C 0 "N_STARTUP_LINE cfg" "(line, m)"] by (simp add: r)
  with a r show "\<exists>line' m'. system_execute_startup cfg C line m = Some (line', m')
      \<and> filter is_startup_read (calls m') =
          filter is_startup_read (calls m) @ map Call_settings_read_startup_line [0..<N_STARTUP_LINE cfg]"
    by simp
qed

theorem startup_runs_every_slot_witness:
  "N_STARTUP_LINE example_config \<le> 255
   \<and> (\<exists>line' m'. system_execute_startup example_config example_collab [] (example_machine 0) = Some (line', m')
        \<and> calls m' =
            [Call_settings_read_startup_line 0,
             Call_report_execute_startup_message [] STATUS_SETTING_READ_FAIL,
             Call_settings_read_startup_line 1,
             Call_gc_execute_line ''G21'',
             Call_report_execute_startup_message ''G21'' STATUS_OK])"
  using startup_runs_every_slot [of example_config example_collab "[]" "example_machine 0"]
  by (simp add: example_config_def example_collab_def example_machine_def execute_startup_slot_def
      logged_r_def report_def line_set_def line_at_def c_str_def NUL_def upt_rec numeral_2_eq_2)

section \<open>Properties: the safety door\<close>

text \<open>
  Claim C9. \<^verbatim>\<open>system_check_safety_door_ajar\<close> is 0 in every state. So no line whose command
  letter is \<^verbatim>\<open>X\<close> or \<^verbatim>\<open>H\<close> makes \<^verbatim>\<open>system_execute_line\<close> return \<open>STATUS_CHECK_DOOR\<close>; and
  with at most 255 startup lines these commands do return.
\<close>

theorem no_check_door:
  "system_check_safety_door_ajar m = 0
   \<and> (line_at line 1 = CHR ''X'' \<or> line_at line 1 = CHR ''H'' \<longrightarrow>
        (\<forall>st line' m'. system_execute_line cfg C line m = Some (st, line', m') \<longrightarrow> st \<noteq> STATUS_CHECK_DOOR)
        \<and> (N_STARTUP_LINE cfg \<le> 255 \<longrightarrow> system_execute_line cfg C line m \<noteq> None))"
  by (auto simp: system_execute_line_def execute_query_def execute_homing_def
      system_check_safety_door_ajar_def system_execute_startup_fold NUL_def Let_def
      split: if_splits option.splits prod.splits)

lemma example_startup:
  "system_execute_startup example_config example_collab line m =
     Some (''G21'', m\<lparr>calls := calls m @
            [Call_settings_read_startup_line 0,
             Call_report_execute_startup_message [] STATUS_SETTING_READ_FAIL,
             Call_settings_read_startup_line 1,
             Call_gc_execute_line ''G21'',
             Call_report_execute_startup_message ''G21'' STATUS_OK]\<rparr>)"
proof -
  have n: "N_STARTUP_LINE example_config = Suc (Suc 0)"
    by (simp add: example_config_def)
  have "system_execute_startup example_config example_collab line m =
      Some (fold (execute_startup_slot example_collab) [0..<N_STARTUP_LINE example_config] (line, m))"
    by (rule system_execute_startup_fold) (simp add: n)
  moreover have "c_str ''G21'' = ''G21''" "line_at ''G21'' 0 \<noteq> NUL"
    by (simp_all add: c_str_def line_at_def NUL_def)
  ultimately show ?thesis
    by (simp add: n upt_rec example_collab_def execute_startup_slot_def
      logged_r_def report_def c_str_cleared Let_def)
qed

theorem no_check_door_witness:
  "system_check_safety_door_ajar (example_machine 1) = 0
   \<and> system_execute_line example_config example_collab ''$X'' (example_machine 1) =
       Some (STATUS_OK, ''$X'',
             (example_machine 0)\<lparr>calls := [Call_report_feedback_message MESSAGE_ALARM_UNLOCK]\<rparr>)
   \<and> (\<exists>line' m'. system_execute_line example_config example_collab ''$H''
                     ((example_machine 1)\<lparr>settings := example_settings\<lparr>flags := 16\<rparr>\<rparr>) =
                   Some (STATUS_OK, line', m')
        \<and> sys_state m' = STATE_IDLE example_config
        \<and> take 2 (calls m') = [Call_mc_homing_cycle HOMING_CYCLE_ALL, Call_st_go_idle])"
proof -
  have w: "(16 :: 8 word) AND 16 \<noteq> 0"
    by simp
  have x: "system_execute_line example_config example_collab ''$X'' (example_machine 1) =
       Some (STATUS_OK, ''$X'',
             (example_machine 0)\<lparr>calls := [Call_report_feedback_message MESSAGE_ALARM_UNLOCK]\<rparr>)"
    by (simp add: system_execute_line_def execute_query_def system_check_safety_door_ajar_def
        example_config_def example_machine_def report_def line_at_def NUL_def)
  have h: "\<exists>line' m'. system_execute_line example_config example_collab ''$H''
                     ((example_machine 1)\<lparr>settings := example_settings\<lparr>flags := 16\<rparr>\<rparr>) =
                   Some (STATUS_OK, line', m')
        \<and> sys_state m' = STATE_IDLE example_config
        \<and> take 2 (calls m') = [Call_mc_homing_cycle HOMING_CYCLE_ALL, Call_st_go_idle]"
  proof -
    have cfg: "BITFLAG_HOMING_ENABLE example_config = 16" "STATE_HOMING example_config = 4"
      "STATE_IDLE example_config = 0" "STATE_ALARM example_config = 1"
      "STATE_JOG example_config = 32" "HOMING_SINGLE_AXIS_COMMANDS example_config = False"
      by (simp_all add: example_config_def)
    have col: "mc_homing_cycle example_collab = (\<lambda>cycle m. m)" "st_go_idle example_collab = (\<lambda>m. m)"
      by (simp_all add: example_collab_def)
    show ?thesis
      using w
      by (simp add: system_execute_line_def execute_homing_def homing_request_def
          system_check_safety_door_ajar_def example_startup logged_def line_at_def cfg col NUL_def
          example_machine_def Let_def)
  qed
  show ?thesis
    using no_check_door [of "example_machine 1" "''$X''" example_config example_collab] x h
    by simp
qed

section \<open>Properties: the forward solver\<close>

lemma triangularForward_loop_exit:
  assumes "n \<le> 200"
  shows "\<exists>m. n \<le> m \<and> m \<le> 200
     \<and> (\<forall>i. n \<le> i \<and> i < m \<longrightarrow>
           \<not> chain_errors_small s k a b (forward_guess s k a b seed i)
           \<and> \<not> guess_too_long s k (forward_guess s k a b seed i))
     \<and> (chain_errors_small s k a b (forward_guess s k a b seed m) \<or> m = 200
          \<or> guess_too_long s k (forward_guess s k a b seed m))
     \<and> triangularForward_loop s k a b
          (fst (forward_guess s k a b seed n)) (snd (forward_guess s k a b seed n)) (int n) =
        (if m = 200 \<or> guess_too_long s k (forward_guess s k a b seed m)
         then ((0, 0), [Unable_to_find_position a b])
         else (forward_guess s k a b seed (Suc m), []))"
  using assms
proof (induction "200 - n" arbitrary: n)
  case 0
  then have n: "n = 200" by simp
  show ?case
    apply (rule exI [of _ n])
    apply (subst triangularForward_loop.simps)
    apply (auto simp: n KINEMATICS_MAX_GUESS_def Let_def split: prod.splits)
    done
next
  case (Suc d)
  then have lt: "n < 200" by simp
  let ?g = "forward_guess s k a b seed n"
  show ?case
  proof (cases "chain_errors_small s k a b ?g \<or> guess_too_long s k ?g")
    case True
    then show ?thesis
      apply (intro exI [of _ n])
      apply (subst triangularForward_loop.simps)
      using lt
      apply (auto simp: KINEMATICS_MAX_GUESS_def KINEMATICS_MAX_ERR_def Let_def
          chain_errors_small_def guess_too_long_def split: prod.splits)
      done
  next
    case False
    have "Suc n \<le> 200" "d = 200 - Suc n"
      using Suc.hyps(2) lt by simp_all
    from Suc.hyps(1) [OF this(2) this(1)]
    obtain m where m: "Suc n \<le> m" "m \<le> 200"
      "\<forall>i. Suc n \<le> i \<and> i < m \<longrightarrow>
           \<not> chain_errors_small s k a b (forward_guess s k a b seed i)
           \<and> \<not> guess_too_long s k (forward_guess s k a b seed i)"
      "chain_errors_small s k a b (forward_guess s k a b seed m) \<or> m = 200
          \<or> guess_too_long s k (forward_guess s k a b seed m)"
      "triangularForward_loop s k a b
          (fst (forward_guess s k a b seed (Suc n))) (snd (forward_guess s k a b seed (Suc n))) (int (Suc n)) =
        (if m = 200 \<or> guess_too_long s k (forward_guess s k a b seed m)
         then ((0, 0), [Unable_to_find_position a b])
         else (forward_guess s k a b seed (Suc m), []))"
      by blast
    have step: "triangularForward_loop s k a b (fst ?g) (snd ?g) (int n) =
        triangularForward_loop s k a b
          (fst (forward_guess s k a b seed (Suc n))) (snd (forward_guess s k a b seed (Suc n))) (int (Suc n))"
      apply (subst triangularForward_loop.simps)
      using False lt
      apply (auto simp: KINEMATICS_MAX_GUESS_def KINEMATICS_MAX_ERR_def Let_def
          chain_errors_small_def guess_too_long_def add.commute split: prod.splits)
      done
    have pre: "\<forall>i. n \<le> i \<and> i < m \<longrightarrow>
           \<not> chain_errors_small s k a b (forward_guess s k a b seed i)
           \<and> \<not> guess_too_long s k (forward_guess s k a b seed i)"
    proof (intro allI impI)
      fix i assume i: "n \<le> i \<and> i < m"
      show "\<not> chain_errors_small s k a b (forward_guess s k a b seed i)
           \<and> \<not> guess_too_long s k (forward_guess s k a b seed i)"
      proof (cases "i = n")
        case True
        with False show ?thesis by simp
      next
        case False
        with i have "Suc n \<le> i \<and> i < m" by simp
        with m(3) show ?thesis by blast
      qed
    qed
    show ?thesis
    proof (intro exI [of _ m] conjI)
      show "n \<le> m" using m(1) by simp
      show "m \<le> 200" by (rule m(2))
      show "\<forall>i. n \<le> i \<and> i < m \<longrightarrow>
           \<not> chain_errors_small s k a b (forward_guess s k a b seed i)
           \<and> \<not> guess_too_long s k (forward_guess s k a b seed i)" by (rule pre)
      show "chain_errors_small s k a b (forward_guess s k a b seed m) \<or> m = 200
          \<or> guess_too_long s k (forward_guess s k a b seed m)" by (rule m(4))
      show "triangularForward_loop s k a b (fst ?g) (snd ?g) (int n) =
        (if m = 200 \<or> guess_too_long s k (forward_guess s k a b seed m)
         then ((0, 0), [Unable_to_find_position a b])
         else (forward_guess s k a b seed (Suc m), []))"
        unfolding step by (rule m(5))
    qed
  qed
qed


lemma triangularInverse_first_top:
  fixes s :: settings and k :: kinematics and x y :: real
  assumes top: "chainOverSprocket s = 1"
  defines "Motor1Distance \<equiv> sqrt ((-1 * xCordOfMotor k - x)\<^sup>2 + (yCordOfMotor k - y)\<^sup>2)"
  defines "Chain1Angle \<equiv> arcsin ((yCordOfMotor k - y) / Motor1Distance)
                          + arcsin (sprocketRadius k / Motor1Distance)"
  shows "\<exists>h T. fst (triangularInverse s k x y) =
           sprocketRadius k * Chain1Angle
           + sqrt (h\<^sup>2 + (yCordOfMotor k + sprocketRadius k * cos Chain1Angle - y)\<^sup>2)
               / (1.0 + leftChainTolerance s / 100.0) / (1.0 + T * chainElongationFactor s)
           - rotationDiskRadius s"
  unfolding triangularInverse_def Let_def Motor1Distance_def Chain1Angle_def
  apply (simp only: if_P [OF top] fst_conv)
  apply (intro exI)
  apply (rule refl)
  done

lemma arcsin_nonneg: "0 \<le> u \<Longrightarrow> u \<le> 1 \<Longrightarrow> 0 \<le> arcsin u"
  using arcsin_le_arcsin [of 0 u] by simp

lemma inverse_first_ge:
  fixes s :: settings and k :: kinematics and x y :: real
  assumes top: "chainOverSprocket s = 1"
    and el: "chainElongationFactor s = 0"
    and tol: "leftChainTolerance s = 0"
    and r0: "0 \<le> sprocketRadius k"
    and y0: "0 \<le> yCordOfMotor k - y"
    and d: "0 < sqrt ((-1 * xCordOfMotor k - x)\<^sup>2 + (yCordOfMotor k - y)\<^sup>2)"
           "sprocketRadius k \<le> sqrt ((-1 * xCordOfMotor k - x)\<^sup>2 + (yCordOfMotor k - y)\<^sup>2)"
  shows "yCordOfMotor k - y - sprocketRadius k - rotationDiskRadius s \<le> fst (triangularInverse s k x y)"
proof -
  define d1 where "d1 = sqrt ((-1 * xCordOfMotor k - x)\<^sup>2 + (yCordOfMotor k - y)\<^sup>2)"
  define th where "th = arcsin ((yCordOfMotor k - y) / d1) + arcsin (sprocketRadius k / d1)"
  from triangularInverse_first_top [OF top, of k x y]
  obtain h T where eq: "fst (triangularInverse s k x y) =
      sprocketRadius k * th
      + sqrt (h\<^sup>2 + (yCordOfMotor k + sprocketRadius k * cos th - y)\<^sup>2)
          / (1.0 + leftChainTolerance s / 100.0) / (1.0 + T * chainElongationFactor s)
      - rotationDiskRadius s"
    unfolding th_def d1_def by blast
  have d1: "0 < d1" "sprocketRadius k \<le> d1"
    using d by (simp_all add: d1_def)
  have "yCordOfMotor k - y \<le> d1"
    unfolding d1_def by (rule real_sqrt_sum_squares_ge2)
  with d1 y0 have "0 \<le> arcsin ((yCordOfMotor k - y) / d1)"
    by (intro arcsin_nonneg) simp_all
  moreover from d1 r0 have "0 \<le> arcsin (sprocketRadius k / d1)"
    by (intro arcsin_nonneg) simp_all
  ultimately have th0: "0 \<le> sprocketRadius k * th"
    using r0 by (simp add: th_def)
  have "- 1 \<le> cos th" by simp
  then have "- sprocketRadius k \<le> sprocketRadius k * cos th"
    using r0 by (metis mult.right_neutral mult_left_mono mult_minus_right)
  then have "yCordOfMotor k - y - sprocketRadius k \<le> yCordOfMotor k + sprocketRadius k * cos th - y"
    by simp
  also have "\<dots> \<le> sqrt (h\<^sup>2 + (yCordOfMotor k + sprocketRadius k * cos th - y)\<^sup>2)"
    by (rule real_sqrt_sum_squares_ge2)
  finally show ?thesis
    using th0 by (simp add: eq el tol)
qed


lemma forward_gives_up_at_seed:
  assumes "guess_too_long s k seed"
  shows "triangularForward s k a b seed = ((0, 0), [Unable_to_find_position a b])"
  unfolding triangularForward_def
  apply (subst triangularForward_loop.simps)
  using assms
  apply (auto simp: guess_too_long_def Let_def split: prod.splits)
  done

lemma short_chain_too_long:
  assumes k: "sprocketRadius k = 10.1" "xCordOfMotor k = 1500" "yCordOfMotor k = 1200"
    and y: "y \<le> 0"
  shows "guess_too_long short_chain_settings k (x, y)"
proof -
  have s: "chainOverSprocket short_chain_settings = 1" "chainElongationFactor short_chain_settings = 0"
    "leftChainTolerance short_chain_settings = 0" "rotationDiskRadius short_chain_settings = 139"
    "chainLength short_chain_settings = 1000"
    by (simp_all add: short_chain_settings_def example_settings_def)
  have "1200 - y \<le> sqrt ((-1 * 1500 - x)\<^sup>2 + (1200 - y)\<^sup>2)"
    by (rule real_sqrt_sum_squares_ge2)
  then have d: "0 < sqrt ((-1 * xCordOfMotor k - x)\<^sup>2 + (yCordOfMotor k - y)\<^sup>2)"
    "sprocketRadius k \<le> sqrt ((-1 * xCordOfMotor k - x)\<^sup>2 + (yCordOfMotor k - y)\<^sup>2)"
    unfolding k using y by linarith+
  have "yCordOfMotor k - y - sprocketRadius k - rotationDiskRadius short_chain_settings
        \<le> fst (triangularInverse short_chain_settings k x y)"
    by (rule inverse_first_ge [OF s(1) s(2) s(3) _ _ d]) (use y in \<open>simp_all add: k\<close>)
  then have "chainLength short_chain_settings < fst (triangularInverse short_chain_settings k x y)"
    using y by (simp add: s k)
  then show ?thesis
    by (simp add: guess_too_long_def Let_def)
qed

lemma example_kinematics_geometry:
  "sprocketRadius example_kinematics = 10.1" "xCordOfMotor example_kinematics = 1500"
  "yCordOfMotor example_kinematics = 1200"
  by (simp_all add: example_kinematics_def)

text \<open>
  Claim C1. \<^verbatim>\<open>triangularForward\<close> ends for all chain lengths and every seed, after at most
  201 passes of its loop (the loop is a total function; its measure is
  \<open>KINEMATICS_MAX_GUESS + 1 - guessCount\<close>). It leaves the loop in the first pass \<open>m + 1\<close>
  in which both chain errors are at most 0.01 in absolute value, or the pass count
  exceeds 200 (\<open>m = 200\<close>), or a guessed chain length exceeds \<^verbatim>\<open>settings.chainLength\<close>. In
  the last two cases it prints its message and returns \<open>(0, 0)\<close>, otherwise it returns
  the corrected guess. On the steps-to-position path with the iterative solver selected,
  what it returns is what the seed cache holds afterwards.
\<close>

theorem forward_solver_exits:
  "(\<exists>m\<le>200.
      (\<forall>i<m. \<not> chain_errors_small s k a b (forward_guess s k a b seed i)
              \<and> \<not> guess_too_long s k (forward_guess s k a b seed i))
      \<and> (chain_errors_small s k a b (forward_guess s k a b seed m) \<or> m = 200
           \<or> guess_too_long s k (forward_guess s k a b seed m))
      \<and> triangularForward s k a b seed =
          (if m = 200 \<or> guess_too_long s k (forward_guess s k a b seed m)
           then ((0, 0), [Unable_to_find_position a b])
           else (forward_guess s k a b seed (Suc m), [])))
   \<and> (\<not> simpleKinematics s \<longrightarrow>
        (let k' = fst (system_convert_maslow_to_xy_steps cfg s k steps)
         in (xLastPosition k', yLastPosition k') =
            fst (triangularForward s (recomputeGeometry s k)
                   (real_of_int (steps ! LEFT_MOTOR cfg) / steps_per_mm s ! LEFT_MOTOR cfg)
                   (real_of_int (steps ! RIGHT_MOTOR cfg) / steps_per_mm s ! RIGHT_MOTOR cfg)
                   (xLastPosition k, yLastPosition k))))"
proof (rule conjI)
  from triangularForward_loop_exit [of 0 s k a b seed]
  show "\<exists>m\<le>200.
      (\<forall>i<m. \<not> chain_errors_small s k a b (forward_guess s k a b seed i)
              \<and> \<not> guess_too_long s k (forward_guess s k a b seed i))
      \<and> (chain_errors_small s k a b (forward_guess s k a b seed m) \<or> m = 200
           \<or> guess_too_long s k (forward_guess s k a b seed m))
      \<and> triangularForward s k a b seed =
          (if m = 200 \<or> guess_too_long s k (forward_guess s k a b seed m)
           then ((0, 0), [Unable_to_find_position a b])
           else (forward_guess s k a b seed (Suc m), []))"
    by (simp add: triangularForward_def)
next
  show "\<not> simpleKinematics s \<longrightarrow>
        (let k' = fst (system_convert_maslow_to_xy_steps cfg s k steps)
         in (xLastPosition k', yLastPosition k') =
            fst (triangularForward s (recomputeGeometry s k)
                   (real_of_int (steps ! LEFT_MOTOR cfg) / steps_per_mm s ! LEFT_MOTOR cfg)
                   (real_of_int (steps ! RIGHT_MOTOR cfg) / steps_per_mm s ! RIGHT_MOTOR cfg)
                   (xLastPosition k, yLastPosition k)))"
    by (simp add: system_convert_maslow_to_xy_steps_def chainToPosition_def Let_def
        split: prod.splits)
qed

theorem forward_solver_exits_witness:
  "triangularForward short_chain_settings example_kinematics 1800 1800 (0, 0) =
     ((0, 0), [Unable_to_find_position 1800 1800])
   \<and> \<not> simpleKinematics short_chain_settings
   \<and> (let k' = fst (system_convert_maslow_to_xy_steps example_config short_chain_settings
                      example_kinematics [180000, 180000, 0])
      in (xLastPosition k', yLastPosition k') =
         fst (triangularForward short_chain_settings example_kinematics 1800 1800 (0, 0)))"
proof -
  from forward_solver_exits [of short_chain_settings example_kinematics 1800 1800 "(0, 0)"
      example_config "[180000, 180000, 0]"]
  obtain m where m: "\<forall>i<m. \<not> guess_too_long short_chain_settings example_kinematics
        (forward_guess short_chain_settings example_kinematics 1800 1800 (0, 0) i)"
    "triangularForward short_chain_settings example_kinematics 1800 1800 (0, 0) =
          (if m = 200 \<or> guess_too_long short_chain_settings example_kinematics
                (forward_guess short_chain_settings example_kinematics 1800 1800 (0, 0) m)
           then ((0, 0), [Unable_to_find_position 1800 1800])
           else (forward_guess short_chain_settings example_kinematics 1800 1800 (0, 0) (Suc m), []))"
    and c: "\<not> simpleKinematics short_chain_settings \<longrightarrow>
        (let k' = fst (system_convert_maslow_to_xy_steps example_config short_chain_settings
                      example_kinematics [180000, 180000, 0])
         in (xLastPosition k', yLastPosition k') =
            fst (triangularForward short_chain_settings
                   (recomputeGeometry short_chain_settings example_kinematics)
                   (real_of_int ([180000, 180000, 0] ! LEFT_MOTOR example_config)
                      / steps_per_mm short_chain_settings ! LEFT_MOTOR example_config)
                   (real_of_int ([180000, 180000, 0] ! RIGHT_MOTOR example_config)
                      / steps_per_mm short_chain_settings ! RIGHT_MOTOR example_config)
                   (xLastPosition example_kinematics, yLastPosition example_kinematics)))"
    by blast
  have "m = 0"
  proof (rule ccontr)
    assume "m \<noteq> 0"
    then have "0 < m" by simp
    with m(1) have "\<not> guess_too_long short_chain_settings example_kinematics (0, 0)"
      by fastforce
    with short_chain_too_long [OF example_kinematics_geometry, of 0 0] show False by simp
  qed
  with m(2) short_chain_too_long [OF example_kinematics_geometry, of 0 0]
  have r: "triangularForward short_chain_settings example_kinematics 1800 1800 (0, 0) =
     ((0, 0), [Unable_to_find_position 1800 1800])"
    by simp
  have g: "recomputeGeometry short_chain_settings example_kinematics = example_kinematics"
    by (simp add: recomputeGeometry_def short_chain_settings_def example_settings_def
        example_kinematics_def)
  have ns: "\<not> simpleKinematics short_chain_settings"
    by (simp add: short_chain_settings_def example_settings_def)
  have v: "steps_per_mm short_chain_settings = [100, 100, 100]"
    "LEFT_MOTOR example_config = 0" "RIGHT_MOTOR example_config = 1"
    "xLastPosition example_kinematics = 0" "yLastPosition example_kinematics = 0"
    by (simp_all add: short_chain_settings_def example_settings_def example_config_def
        example_kinematics_def)
  from c ns show ?thesis
    by (simp add: r g v Let_def)
qed



lemma forward_gave_up_zero:
  assumes "forward_gave_up (triangularForward s k a b seed)"
  shows "fst (triangularForward s k a b seed) = (0, 0)"
proof -
  from triangularForward_loop_exit [of 0 s k a b seed]
  obtain m where "triangularForward s k a b seed =
          (if m = 200 \<or> guess_too_long s k (forward_guess s k a b seed m)
           then ((0, 0), [Unable_to_find_position a b])
           else (forward_guess s k a b seed (Suc m), []))"
    by (auto simp: triangularForward_def)
  with assms show ?thesis
    by (cases "m = 200 \<or> guess_too_long s k (forward_guess s k a b seed m)")
      (simp_all add: forward_gave_up_def)
qed

text \<open>
  Claim C10. On the steps-to-position path with the iterative solver selected: when the
  forward solver gives up, it returns \<open>(0, 0)\<close>, the seed cache \<^verbatim>\<open>_xLastPosition\<close>,
  \<^verbatim>\<open>_yLastPosition\<close> holds \<open>(0, 0)\<close> afterwards, and the next forward solve from that cache
  starts at \<open>(0, 0)\<close>, for any settings and chain lengths.
\<close>

theorem divergence_resets_seed:
  "\<not> simpleKinematics s \<longrightarrow>
     (let r = triangularForward s (recomputeGeometry s k)
                (real_of_int (steps ! LEFT_MOTOR cfg) / steps_per_mm s ! LEFT_MOTOR cfg)
                (real_of_int (steps ! RIGHT_MOTOR cfg) / steps_per_mm s ! RIGHT_MOTOR cfg)
                (xLastPosition k, yLastPosition k);
          k1 = fst (system_convert_maslow_to_xy_steps cfg s k steps)
      in forward_gave_up r \<longrightarrow>
           fst r = (0, 0)
           \<and> xLastPosition k1 = 0 \<and> yLastPosition k1 = 0
           \<and> (\<forall>s' a' b'. \<not> simpleKinematics s' \<longrightarrow>
                 fst (snd (chainToPosition s' k1 a' b' (xLastPosition k1, yLastPosition k1))) =
                 fst (triangularForward s' (recomputeGeometry s' k1) a' b' (0, 0))))"
proof (intro impI, unfold Let_def, intro impI)
  let ?r = "triangularForward s (recomputeGeometry s k)
                (real_of_int (steps ! LEFT_MOTOR cfg) / steps_per_mm s ! LEFT_MOTOR cfg)
                (real_of_int (steps ! RIGHT_MOTOR cfg) / steps_per_mm s ! RIGHT_MOTOR cfg)
                (xLastPosition k, yLastPosition k)"
  let ?k1 = "fst (system_convert_maslow_to_xy_steps cfg s k steps)"
  assume ns: "\<not> simpleKinematics s" and gu: "forward_gave_up ?r"
  have z: "fst ?r = (0, 0)"
    using gu by (rule forward_gave_up_zero)
  have k1: "xLastPosition ?k1 = fst (fst ?r)" "yLastPosition ?k1 = snd (fst ?r)"
    using ns
    by (simp_all add: system_convert_maslow_to_xy_steps_def chainToPosition_def Let_def
        split: prod.splits)
  have seed: "xLastPosition ?k1 = 0" "yLastPosition ?k1 = 0"
    using k1 z by simp_all
  have nxt: "\<forall>s' a' b'. \<not> simpleKinematics s' \<longrightarrow>
      fst (snd (chainToPosition s' ?k1 a' b' (xLastPosition ?k1, yLastPosition ?k1))) =
      fst (triangularForward s' (recomputeGeometry s' ?k1) a' b' (0, 0))"
    unfolding seed by (simp add: chainToPosition_def Let_def split: prod.splits)
  from z seed nxt
  show "fst ?r = (0, 0) \<and> xLastPosition ?k1 = 0 \<and> yLastPosition ?k1 = 0
      \<and> (\<forall>s' a' b'. \<not> simpleKinematics s' \<longrightarrow>
            fst (snd (chainToPosition s' ?k1 a' b' (xLastPosition ?k1, yLastPosition ?k1))) =
            fst (triangularForward s' (recomputeGeometry s' ?k1) a' b' (0, 0)))"
    by blast
qed



theorem divergence_resets_seed_witness:
  "\<not> simpleKinematics short_chain_settings
   \<and> yLastPosition (example_kinematics\<lparr>yLastPosition := - 100\<rparr>) = - 100
   \<and> forward_gave_up
       (triangularForward short_chain_settings (example_kinematics\<lparr>yLastPosition := - 100\<rparr>)
          1800 1800 (0, - 100))
   \<and> yLastPosition (fst (system_convert_maslow_to_xy_steps example_config short_chain_settings
        (example_kinematics\<lparr>yLastPosition := - 100\<rparr>) [180000, 180000, 0])) = 0"
proof -
  let ?k = "example_kinematics\<lparr>yLastPosition := - 100\<rparr>"
  have ns: "\<not> simpleKinematics short_chain_settings"
    by (simp add: short_chain_settings_def example_settings_def)
  have g: "recomputeGeometry short_chain_settings ?k = ?k"
    by (simp add: recomputeGeometry_def short_chain_settings_def example_settings_def
        example_kinematics_def)
  have v: "steps_per_mm short_chain_settings = [100, 100, 100]"
    "LEFT_MOTOR example_config = 0" "RIGHT_MOTOR example_config = 1"
    "xLastPosition ?k = 0" "yLastPosition ?k = - 100"
    by (simp_all add: short_chain_settings_def example_settings_def example_config_def
        example_kinematics_def)
  have "guess_too_long short_chain_settings ?k (0, - 100)"
    by (rule short_chain_too_long) (simp_all add: example_kinematics_def)
  then have gu: "forward_gave_up (triangularForward short_chain_settings ?k 1800 1800 (0, - 100))"
    using forward_gives_up_at_seed [of short_chain_settings ?k "(0, - 100)" 1800 1800]
    by (simp add: forward_gave_up_def)
  from divergence_resets_seed [of short_chain_settings ?k "[180000, 180000, 0]" example_config]
  show ?thesis
    using ns gu by (simp add: g v Let_def)
qed

section \<open>Properties: steps to machine position\<close>

lemma round_ties_even_of_int: "round_ties_even (real_of_int m) = m"
  by (simp add: round_ties_even_def)

text \<open>An integer below \<open>2 ^ 24\<close> in absolute value is a \<^verbatim>\<open>float\<close>.\<close>

lemma float_round_of_int:
  fixes n :: int
  assumes n: "\<bar>n\<bar> < 2 ^ 24"
  shows "float_round (real_of_int n) = real_of_int n"
proof (cases "n = 0")
  case True
  then show ?thesis
    by (simp add: float_round_def round_ties_even_def)
next
  case False
  then have a1: "1 \<le> \<bar>real_of_int n\<bar>"
    by (metis abs_ge_zero less_le not_less of_int_1_le_iff of_int_abs abs_zero zero_less_abs_iff
        int_one_le_iff_zero_less)
  have "2 powr (- 126) \<le> (1 :: real)"
    by (simp add: powr_minus_divide)
  with a1 have e: "float_exponent (real_of_int n) = \<lfloor>log 2 \<bar>real_of_int n\<bar>\<rfloor>"
    by (simp add: float_exponent_def)
  define e where "e = \<lfloor>log 2 \<bar>real_of_int n\<bar>\<rfloor>"
  have "0 \<le> log 2 \<bar>real_of_int n\<bar>"
    using a1 by simp
  then have e0: "0 \<le> e"
    by (simp add: e_def)
  have "\<bar>real_of_int n\<bar> < 2 ^ 24"
    using n by (metis of_int_abs of_int_less_numeral_power_cancel_iff)
  then have "log 2 \<bar>real_of_int n\<bar> < log 2 (2 ^ 24)"
    using a1 by (subst log_less_cancel_iff) simp_all
  moreover have "log 2 ((2 :: real) ^ 24) = 24"
    using log_pow_cancel [of "2 :: real" 24] by simp
  ultimately have "log 2 \<bar>real_of_int n\<bar> < 24"
    by simp
  then have e23: "e \<le> 23"
    unfolding e_def by (simp add: floor_le_iff)
  define j where "j = nat (23 - e)"
  have ej: "real_of_int e - 23 = - real j"
    using e23 by (simp add: j_def)
  have u: "2 powr (real_of_int e - 23) = 1 / 2 ^ j"
    unfolding ej by (simp add: powr_minus_divide powr_realpow)
  have q: "real_of_int n / (1 / 2 ^ j) = real_of_int (n * 2 ^ j)"
    by simp
  show ?thesis
    unfolding float_round_def Let_def e e_def [symmetric] u q round_ties_even_of_int
    by simp
qed

lemma float_exponent_eq:
  fixes x :: real and e :: int
  assumes "2 powr (- 126) \<le> \<bar>x\<bar>" and "2 powr real_of_int e \<le> \<bar>x\<bar>"
    and "\<bar>x\<bar> < 2 powr (real_of_int e + 1)"
  shows "float_exponent x = e"
proof -
  have "0 < \<bar>x\<bar>"
    using assms(1) by (smt (verit) powr_gt_zero)
  then have "\<lfloor>log 2 \<bar>x\<bar>\<rfloor> = e"
    using assms(2,3) by (subst floor_log_eq_powr_iff) simp_all
  then show ?thesis
    using assms(1) by (simp add: float_exponent_def)
qed

text \<open>
  Where the rounding decides the step count: 200 whole millimetres at the \<^verbatim>\<open>float\<close>
  nearest to 100.1 steps per millimetre (\<open>13120307 / 2 ^ 17\<close>). The exact product is
  \<open>-20019.9997\<close>; the \<^verbatim>\<open>float\<close> product is \<open>-20020\<close>.
\<close>

lemma float_round_product_example:
  "c_trunc (float_round (float_round (real_of_int (- 200)) * (13120307 / 131072))) = - 20020"
  "c_trunc (real_of_int (- 200) * (13120307 / 131072)) = - 20019"
proof -
  have p: "(2 :: real) powr 14 = 2 ^ 14" "(2 :: real) powr (14 + 1) = 2 ^ 15"
    "(2 :: real) powr (- 9) = 1 / 2 ^ 9" "(2 :: real) powr (- 126) = 1 / 2 ^ 126"
    using powr_realpow [of "2 :: real" 14] powr_realpow [of "2 :: real" 15]
      powr_minus_divide [of "2 :: real" 9] powr_realpow [of "2 :: real" 9]
      powr_minus_divide [of "2 :: real" 126] powr_realpow [of "2 :: real" 126]
    by simp_all
  have i: "float_round (real_of_int (- 200)) = real_of_int (- 200)"
    by (rule float_round_of_int) simp
  have e: "float_exponent (- 200 * (13120307 / 131072)) = 14"
    by (rule float_exponent_eq) (simp_all add: p)
  have "float_round (- 200 * (13120307 / 131072)) = - 20020"
    unfolding float_round_def Let_def e
    by (simp add: p round_ties_even_def Let_def)
  then show "c_trunc (float_round (float_round (real_of_int (- 200)) * (13120307 / 131072))) = - 20020"
    unfolding i by (simp add: c_trunc_def)
  show "c_trunc (real_of_int (- 200) * (13120307 / 131072)) = - 20019"
    by (simp add: c_trunc_def)
qed







section \<open>Properties: the mirror symmetry of the inverse kinematics\<close>

lemma triangularInverse_halves:
  "triangularInverse s k x y = catenary_lengths s x y (tangent_geometry s k x y)"
  unfolding triangularInverse_def catenary_lengths_def tangent_geometry_def Let_def prod.case
  by (rule refl)

lemma sq_mirror: "(- 1 * a - - b)\<^sup>2 = (a - b)\<^sup>2" "(a - - b)\<^sup>2 = (- 1 * a - b)\<^sup>2"
  for a b :: real
  by (simp_all add: power2_eq_square algebra_simps)

lemma tangent_geometry_negate:
  "tangent_geometry s k (- x) y =
    (case tangent_geometry s k x y of
       (arc1, arc2, xt1, yt1, xt2, yt2, ls1, ls2) \<Rightarrow>
         (arc2, arc1, - xt2, yt2, - xt1, yt1, ls2, ls1))"
  unfolding tangent_geometry_def Let_def prod.case sq_mirror
  by simp

lemma catenary_lengths_swap:
  fixes s :: settings and x y arc1 arc2 xt1 yt1 xt2 yt2 ls1 ls2 :: real
  assumes tol: "leftChainTolerance s = rightChainTolerance s"
    and s1: "sqrt ((xt1 - x)\<^sup>2 + (yt1 - y)\<^sup>2) = ls1"
    and s2: "sqrt ((xt2 - x)\<^sup>2 + (yt2 - y)\<^sup>2) = ls2"
    and n1: "ls1 \<noteq> 0" and n2: "ls2 \<noteq> 0"
  shows "catenary_lengths s (- x) y (arc2, arc1, - xt2, yt2, - xt1, yt1, ls2, ls1) =
         prod.swap (catenary_lengths s x y (arc1, arc2, xt1, yt1, xt2, yt2, ls1, ls2))"
proof -
  define W where "W = sledWeight s + 0.5 * (0.14 * 9.8 / 1000) * (ls1 + ls2)"
  define D where "D = xt1 * yt2 - xt2 * yt1 - xt1 * y + x * yt1 + xt2 * y - x * yt2"
  define T1 where "T1 = - (W * sqrt ((xt1 - x)\<^sup>2 + (yt1 - y)\<^sup>2) * (xt2 - x)) / D"
  define T2 where "T2 = (W * sqrt ((xt2 - x)\<^sup>2 + (yt2 - y)\<^sup>2) * (xt1 - x)) / D"
  define hT where "hT = T1 * (x - xt1) / ls1"
  define a where "a = hT / (0.14 * 9.8 / 1000)"
  define c1 where "c1 = sqrt ((2 * a * sinh ((x - xt1) / (2 * a)))\<^sup>2 + (yt1 - y)\<^sup>2)"
  define c2 where "c2 = sqrt ((2 * a * sinh ((xt2 - x) / (2 * a)))\<^sup>2 + (yt2 - y)\<^sup>2)"
  have R: "catenary_lengths s x y (arc1, arc2, xt1, yt1, xt2, yt2, ls1, ls2) =
      (arc1 + c1 / (1.0 + leftChainTolerance s / 100.0) / (1.0 + T1 * chainElongationFactor s)
         - rotationDiskRadius s,
       arc2 + c2 / (1.0 + rightChainTolerance s / 100.0) / (1.0 + T2 * chainElongationFactor s)
         - rotationDiskRadius s)"
    unfolding catenary_lengths_def Let_def prod.case c1_def c2_def a_def hT_def T1_def T2_def
      D_def W_def
    by (rule refl)
  define W' where "W' = sledWeight s + 0.5 * (0.14 * 9.8 / 1000) * (ls2 + ls1)"
  define D' where "D' = (- xt2) * yt1 - (- xt1) * yt2 - (- xt2) * y + (- x) * yt2
      + (- xt1) * y - (- x) * yt1"
  define T1' where "T1' = - (W' * sqrt (((- xt2) - (- x))\<^sup>2 + (yt2 - y)\<^sup>2) * ((- xt1) - (- x))) / D'"
  define T2' where "T2' = (W' * sqrt (((- xt1) - (- x))\<^sup>2 + (yt1 - y)\<^sup>2) * ((- xt2) - (- x))) / D'"
  define hT' where "hT' = T1' * ((- x) - (- xt2)) / ls2"
  define a' where "a' = hT' / (0.14 * 9.8 / 1000)"
  define c1' where "c1' = sqrt ((2 * a' * sinh (((- x) - (- xt2)) / (2 * a')))\<^sup>2 + (yt2 - y)\<^sup>2)"
  define c2' where "c2' = sqrt ((2 * a' * sinh (((- xt1) - (- x)) / (2 * a')))\<^sup>2 + (yt1 - y)\<^sup>2)"
  have L: "catenary_lengths s (- x) y (arc2, arc1, - xt2, yt2, - xt1, yt1, ls2, ls1) =
      (arc2 + c1' / (1.0 + leftChainTolerance s / 100.0) / (1.0 + T1' * chainElongationFactor s)
         - rotationDiskRadius s,
       arc1 + c2' / (1.0 + rightChainTolerance s / 100.0) / (1.0 + T2' * chainElongationFactor s)
         - rotationDiskRadius s)"
    unfolding catenary_lengths_def Let_def prod.case c1'_def c2'_def a'_def hT'_def T1'_def T2'_def
      D'_def W'_def
    by (rule refl)
  have W: "W' = W"
    by (simp add: W'_def W_def add.commute)
  have D: "D' = D"
    by (simp add: D'_def D_def)
  have sq: "((- xt2) - (- x))\<^sup>2 = (xt2 - x)\<^sup>2" "((- xt1) - (- x))\<^sup>2 = (xt1 - x)\<^sup>2"
    by (simp_all add: power2_eq_square algebra_simps)
  have T1: "T1' = T2"
    unfolding T1'_def T2_def W D sq by (simp add: algebra_simps)
  have T2: "T2' = T1"
    unfolding T2'_def T1_def W D sq by (simp add: algebra_simps)
  have h1: "hT = - (W * (xt2 - x) * (x - xt1)) / D"
    using n1 by (simp add: hT_def T1_def s1)
  have h2: "hT' = (W * (xt1 - x) * (xt2 - x)) / D"
    using n2 by (simp add: hT'_def T1 T2_def s2)
  have "(W * (xt1 - x) * (xt2 - x)) = - (W * (xt2 - x) * (x - xt1))"
    by (simp add: algebra_simps)
  then have hT: "hT' = hT"
    unfolding h1 h2 by simp
  have a: "a' = a"
    by (simp add: a'_def a_def hT)
  have c1: "c1' = c2"
    by (simp add: c1'_def c2_def a)
  have c2: "c2' = c1"
    by (simp add: c2'_def c1_def a)
  show ?thesis
    unfolding L R T1 T2 c1 c2 tol by simp
qed


lemma tangent_angle_parts:
  fixes u v r d :: real
  assumes u: "0 \<le> u" and d: "d = sqrt (u\<^sup>2 + v\<^sup>2)" and d0: "0 < d" and r: "\<bar>r\<bar> \<le> d"
  shows "sin (arcsin (v / d)) = v / d" and "cos (arcsin (v / d)) = u / d"
    and "sin (arcsin (r / d)) = r / d"
proof -
  have dd: "d\<^sup>2 = u\<^sup>2 + v\<^sup>2"
    unfolding d by simp
  have "sqrt (v\<^sup>2) \<le> sqrt (u\<^sup>2 + v\<^sup>2)"
    by (rule real_sqrt_le_mono) simp
  then have "\<bar>v\<bar> \<le> d"
    unfolding d by simp
  then have vb: "- 1 \<le> v / d" "v / d \<le> 1"
    using d0 by (simp_all add: abs_le_iff pos_le_divide_eq pos_divide_le_eq)
  from r have rb: "- 1 \<le> r / d" "r / d \<le> 1"
    using d0 by (simp_all add: abs_le_iff pos_le_divide_eq pos_divide_le_eq)
  show "sin (arcsin (v / d)) = v / d"
    using vb by (rule sin_arcsin)
  show "sin (arcsin (r / d)) = r / d"
    using rb by (rule sin_arcsin)
  have "(u / d)\<^sup>2 + (v / d)\<^sup>2 = (u\<^sup>2 + v\<^sup>2) / d\<^sup>2"
    by (simp add: power_divide add_divide_distrib)
  also have "\<dots> = 1"
    using d0 by (simp add: dd [symmetric])
  finally have "1 - (v / d)\<^sup>2 = (u / d)\<^sup>2"
    by simp
  then have "sqrt (1 - (v / d)\<^sup>2) = \<bar>u / d\<bar>"
    by simp
  also have "\<dots> = u / d"
    using u d0 by simp
  finally show "cos (arcsin (v / d)) = u / d"
    using cos_arcsin [OF vb] by simp
qed

lemma tangent_distance_top:
  fixes u v r d :: real
  assumes u: "0 \<le> u" and d: "d = sqrt (u\<^sup>2 + v\<^sup>2)" and d0: "0 < d" and r: "\<bar>r\<bar> \<le> d"
  defines "th \<equiv> arcsin (v / d) + arcsin (r / d)"
  shows "(r * sin th - u)\<^sup>2 + (v + r * cos th)\<^sup>2 = d\<^sup>2 - r\<^sup>2"
proof -
  note p = tangent_angle_parts [OF u d d0 r]
  define al be where "al = arcsin (v / d)" and "be = arcsin (r / d)"
  have uv: "u = d * cos al" "v = d * sin al" and sb: "d * sin be = r"
    using p d0 by (simp_all add: al_def be_def)
  have dd: "u\<^sup>2 + v\<^sup>2 = d\<^sup>2"
    unfolding d by simp
  have "u * sin (al + be) - v * cos (al + be) = d * sin be * (cos al * cos al + sin al * sin al)"
    unfolding uv sin_add cos_add by algebra
  moreover have "th = al + be"
    by (simp add: th_def al_def be_def)
  ultimately have key: "u * sin th - v * cos th = r"
    unfolding sin_cos_squared_add3 by (simp add: sb)
  have "(r * sin th - u)\<^sup>2 + (v + r * cos th)\<^sup>2 =
      r\<^sup>2 * ((sin th)\<^sup>2 + (cos th)\<^sup>2) + (u\<^sup>2 + v\<^sup>2) - 2 * r * (u * sin th - v * cos th)"
    by algebra
  also have "\<dots> = r\<^sup>2 + d\<^sup>2 - 2 * r * r"
    unfolding key dd by simp
  finally show ?thesis
    by (simp add: power2_eq_square)
qed

lemma tangent_distance_bottom:
  fixes u v r d :: real
  assumes u: "0 \<le> u" and d: "d = sqrt (u\<^sup>2 + v\<^sup>2)" and d0: "0 < d" and r: "\<bar>r\<bar> \<le> d"
  defines "th \<equiv> arcsin (v / d) - arcsin (r / d)"
  shows "(- (r * sin th) - u)\<^sup>2 + (v - r * cos th)\<^sup>2 = d\<^sup>2 - r\<^sup>2"
proof -
  note p = tangent_angle_parts [OF u d d0 r]
  define al be where "al = arcsin (v / d)" and "be = arcsin (r / d)"
  have uv: "u = d * cos al" "v = d * sin al" and sb: "d * sin be = r"
    using p d0 by (simp_all add: al_def be_def)
  have dd: "u\<^sup>2 + v\<^sup>2 = d\<^sup>2"
    unfolding d by simp
  have "u * sin (al - be) - v * cos (al - be) = - (d * sin be * (cos al * cos al + sin al * sin al))"
    unfolding uv sin_diff cos_diff by algebra
  moreover have "th = al - be"
    by (simp add: th_def al_def be_def)
  ultimately have key: "u * sin th - v * cos th = - r"
    unfolding sin_cos_squared_add3 by (simp add: sb)
  have "(- (r * sin th) - u)\<^sup>2 + (v - r * cos th)\<^sup>2 =
      r\<^sup>2 * ((sin th)\<^sup>2 + (cos th)\<^sup>2) + (u\<^sup>2 + v\<^sup>2) + 2 * r * (u * sin th - v * cos th)"
    by algebra
  also have "\<dots> = r\<^sup>2 + d\<^sup>2 - 2 * r * r"
    unfolding key dd by simp
  finally show ?thesis
    by (simp add: power2_eq_square)
qed


lemma sqrt_diff_squares_pos:
  fixes r d :: real
  assumes "0 \<le> r" "r < d"
  shows "sqrt (d\<^sup>2 - r\<^sup>2) \<noteq> 0"
proof -
  have "r\<^sup>2 < d\<^sup>2"
    using assms by (intro power_strict_mono) simp_all
  then show ?thesis by simp
qed

lemma tangent_geometry_distances:
  fixes s :: settings and k :: kinematics and x y :: real
  assumes r0: "0 \<le> sprocketRadius k" and ws: "in_workspace k x y"
    and bx: "- xCordOfMotor k \<le> x" "x \<le> xCordOfMotor k"
  shows "case tangent_geometry s k x y of
           (arc1, arc2, xt1, yt1, xt2, yt2, ls1, ls2) \<Rightarrow>
             sqrt ((xt1 - x)\<^sup>2 + (yt1 - y)\<^sup>2) = ls1 \<and> sqrt ((xt2 - x)\<^sup>2 + (yt2 - y)\<^sup>2) = ls2
             \<and> ls1 \<noteq> 0 \<and> ls2 \<noteq> 0"
proof -
  define r xm ym where "r = sprocketRadius k" and "xm = xCordOfMotor k" and "ym = yCordOfMotor k"
  define d1 where "d1 = sqrt ((-1 * xm - x)\<^sup>2 + (ym - y)\<^sup>2)"
  define d2 where "d2 = sqrt ((xm - x)\<^sup>2 + (ym - y)\<^sup>2)"
  have e1: "d1 = sqrt ((xm + x)\<^sup>2 + (ym - y)\<^sup>2)"
    unfolding d1_def by (rule arg_cong [of _ _ sqrt]) algebra
  have e2: "d2 = sqrt ((xm - x)\<^sup>2 + (ym - y)\<^sup>2)"
    by (rule d2_def)
  have rd: "r < d1" "r < d2"
    using ws by (simp_all add: in_workspace_def d1_def d2_def r_def xm_def ym_def)
  with r0 have dpos: "0 < d1" "0 < d2" and rabs: "\<bar>r\<bar> \<le> d1" "\<bar>r\<bar> \<le> d2"
    by (simp_all add: r_def)
  have u: "0 \<le> xm + x" "0 \<le> xm - x"
    using bx by (simp_all add: xm_def)
  have n: "sqrt (d1\<^sup>2 - r\<^sup>2) \<noteq> 0" "sqrt (d2\<^sup>2 - r\<^sup>2) \<noteq> 0"
    using r0 rd by (simp_all add: sqrt_diff_squares_pos r_def)
  show ?thesis
  proof (cases "chainOverSprocket s = 1")
    case True
    define th1 where "th1 = arcsin ((ym - y) / d1) + arcsin (r / d1)"
    define th2 where "th2 = arcsin ((ym - y) / d2) + arcsin (r / d2)"
    have G: "tangent_geometry s k x y =
        (r * th1, r * th2, -1.0 * xm + r * sin th1, ym + r * cos th1,
         xm - r * sin th2, ym + r * cos th2, sqrt (d1\<^sup>2 - r\<^sup>2), sqrt (d2\<^sup>2 - r\<^sup>2))"
      unfolding tangent_geometry_def Let_def th1_def th2_def d1_def d2_def r_def xm_def ym_def
      by (simp only: if_P [OF True])
    have t1: "(r * sin th1 - (xm + x))\<^sup>2 + ((ym - y) + r * cos th1)\<^sup>2 = d1\<^sup>2 - r\<^sup>2"
      unfolding th1_def by (rule tangent_distance_top [OF u(1) e1 dpos(1) rabs(1)])
    have t2: "(r * sin th2 - (xm - x))\<^sup>2 + ((ym - y) + r * cos th2)\<^sup>2 = d2\<^sup>2 - r\<^sup>2"
      unfolding th2_def by (rule tangent_distance_top [OF u(2) e2 dpos(2) rabs(2)])
    have "(-1.0 * xm + r * sin th1 - x)\<^sup>2 + (ym + r * cos th1 - y)\<^sup>2 = d1\<^sup>2 - r\<^sup>2"
      unfolding t1 [symmetric] by algebra
    moreover have "(xm - r * sin th2 - x)\<^sup>2 + (ym + r * cos th2 - y)\<^sup>2 = d2\<^sup>2 - r\<^sup>2"
      unfolding t2 [symmetric] by algebra
    ultimately show ?thesis
      unfolding G prod.case using n by simp
  next
    case False
    define th1 where "th1 = arcsin ((ym - y) / d1) - arcsin (r / d1)"
    define th2 where "th2 = arcsin ((ym - y) / d2) - arcsin (r / d2)"
    have G: "tangent_geometry s k x y =
        (r * (3.14159 - th1), r * (3.14159 - th2), -1.0 * xm - r * sin th1, ym - r * cos th1,
         xm + r * sin th2, ym - r * cos th2, sqrt (d1\<^sup>2 - r\<^sup>2), sqrt (d2\<^sup>2 - r\<^sup>2))"
      unfolding tangent_geometry_def Let_def th1_def th2_def d1_def d2_def r_def xm_def ym_def
      by (simp only: if_not_P [OF False])
    have t1: "(- (r * sin th1) - (xm + x))\<^sup>2 + ((ym - y) - r * cos th1)\<^sup>2 = d1\<^sup>2 - r\<^sup>2"
      unfolding th1_def by (rule tangent_distance_bottom [OF u(1) e1 dpos(1) rabs(1)])
    have t2: "(- (r * sin th2) - (xm - x))\<^sup>2 + ((ym - y) - r * cos th2)\<^sup>2 = d2\<^sup>2 - r\<^sup>2"
      unfolding th2_def by (rule tangent_distance_bottom [OF u(2) e2 dpos(2) rabs(2)])
    have "(-1.0 * xm - r * sin th1 - x)\<^sup>2 + (ym - r * cos th1 - y)\<^sup>2 = d1\<^sup>2 - r\<^sup>2"
      unfolding t1 [symmetric] by algebra
    moreover have "(xm + r * sin th2 - x)\<^sup>2 + (ym - r * cos th2 - y)\<^sup>2 = d2\<^sup>2 - r\<^sup>2"
      unfolding t2 [symmetric] by algebra
    ultimately show ?thesis
      unfolding G prod.case using n by simp
  qed
qed

text \<open>
  Claim C7, amended. With equal left and right chain tolerances, a sprocket radius that
  is not negative, a target in the workspace and between the two motors
  (\<open>- xCordOfMotor \<le> x \<le> xCordOfMotor\<close>), \<^verbatim>\<open>triangularInverse\<close> at \<open>(- x, y)\<close> gives the
  two chain lengths of \<open>(x, y)\<close> swapped. This is for both settings of
  \<^verbatim>\<open>chainOverSprocket\<close>, in exact real arithmetic. The bound on x is what makes the
  distance from a tangent point to the target the straight chain length
  \<open>sqrt (MotorDistance\<^sup>2 - sprocketRadius\<^sup>2)\<close>, on which the swap of the single catenary
  parameter (computed from the left tension only) rests.
\<close>

theorem inverse_mirror_symmetry:
  assumes tol: "leftChainTolerance s = rightChainTolerance s"
    and r0: "0 \<le> sprocketRadius k"
    and ws: "in_workspace k x y"
    and bx: "- xCordOfMotor k \<le> x" "x \<le> xCordOfMotor k"
  shows "triangularInverse s k (- x) y = prod.swap (triangularInverse s k x y)"
proof -
  obtain arc1 arc2 xt1 yt1 xt2 yt2 ls1 ls2
    where g: "tangent_geometry s k x y = (arc1, arc2, xt1, yt1, xt2, yt2, ls1, ls2)"
    by (metis prod_cases3)
  from tangent_geometry_distances [OF r0 ws bx, of s]
  have d: "sqrt ((xt1 - x)\<^sup>2 + (yt1 - y)\<^sup>2) = ls1" "sqrt ((xt2 - x)\<^sup>2 + (yt2 - y)\<^sup>2) = ls2"
    "ls1 \<noteq> 0" "ls2 \<noteq> 0"
    by (simp_all add: g)
  show ?thesis
    unfolding triangularInverse_halves tangent_geometry_negate g prod.case
    by (rule catenary_lengths_swap [OF tol d])
qed

text \<open>
  The amended statement on the example machine at \<open>(500, 0)\<close>.
\<close>

theorem inverse_mirror_symmetry_witness:
  "leftChainTolerance example_settings = rightChainTolerance example_settings
   \<and> in_workspace example_kinematics 500 0
   \<and> triangularInverse example_settings example_kinematics (- 500) 0 =
       prod.swap (triangularInverse example_settings example_kinematics 500 0)"
proof -
  have "(100 :: real) \<le> sqrt ((- 1500 - 500)\<^sup>2 + (1200 - 0)\<^sup>2)"
    "(100 :: real) \<le> sqrt ((1500 - 500)\<^sup>2 + (1200 - 0)\<^sup>2)"
    by (rule real_le_rsqrt, simp)+
  then have w: "in_workspace example_kinematics 500 0"
    by (simp add: in_workspace_def example_kinematics_def)
  have t: "leftChainTolerance example_settings = rightChainTolerance example_settings"
    by (simp add: example_settings_def)
  from inverse_mirror_symmetry [OF t _ w] t w
  show ?thesis
    by (simp add: example_kinematics_def)
qed

text \<open>
  The shape of the two results: each arc plus the catenary length, divided by that
  side's tolerance and stretch factors, less the rotation disk radius; both catenaries
  have the same parameter.
\<close>

lemma catenary_lengths_form:
  fixes s :: settings and x y arc1 arc2 xt1 yt1 xt2 yt2 ls1 ls2 :: real
  shows "\<exists>a T1 T2. catenary_lengths s x y (arc1, arc2, xt1, yt1, xt2, yt2, ls1, ls2) =
      (arc1 + sqrt ((2 * a * sinh ((x - xt1) / (2 * a)))\<^sup>2 + (yt1 - y)\<^sup>2)
                / (1.0 + leftChainTolerance s / 100.0) / (1.0 + T1 * chainElongationFactor s)
         - rotationDiskRadius s,
       arc2 + sqrt ((2 * a * sinh ((xt2 - x) / (2 * a)))\<^sup>2 + (yt2 - y)\<^sup>2)
                / (1.0 + rightChainTolerance s / 100.0) / (1.0 + T2 * chainElongationFactor s)
         - rotationDiskRadius s)"
  unfolding catenary_lengths_def Let_def prod.case
  by (intro exI) (rule refl)

lemma tangent_geometry_top_form:
  fixes s :: settings and k :: kinematics and x y :: real
  assumes top: "chainOverSprocket s = 1"
  shows "\<exists>th1 th2 ls1 ls2. tangent_geometry s k x y =
      (sprocketRadius k * th1, sprocketRadius k * th2,
       -1.0 * xCordOfMotor k + sprocketRadius k * sin th1,
       yCordOfMotor k + sprocketRadius k * cos th1,
       xCordOfMotor k - sprocketRadius k * sin th2,
       yCordOfMotor k + sprocketRadius k * cos th2, ls1, ls2)"
  unfolding tangent_geometry_def Let_def
  apply (simp only: if_P [OF top])
  apply (intro exI)
  apply (rule refl)
  done

text \<open>
  Claim C7 as stated fails where the two chain tolerances differ: the left chain is
  divided by \<open>1 + leftChainTolerance / 100\<close>, the right one by
  \<open>1 + rightChainTolerance / 100\<close>. At \<open>(0, 0)\<close>, which is its own mirror image, with
  tolerances 1 and 0 the two chain lengths differ (the catenary length \<open>h\<close> is positive,
  the left chain is \<open>arc + h / 1.01 - 139\<close>, the right one \<open>arc + h - 139\<close>), so the
  pair is not its own swap.
\<close>

theorem inverse_mirror_symmetry_counterexample:
  "in_workspace example_kinematics 0 0
   \<and> triangularInverse uneven_tolerance_settings example_kinematics (- 0) 0
       \<noteq> prod.swap (triangularInverse uneven_tolerance_settings example_kinematics 0 0)"
proof -
  let ?s = uneven_tolerance_settings and ?k = example_kinematics
  have s: "chainOverSprocket ?s = 1" "chainElongationFactor ?s = 0" "leftChainTolerance ?s = 1"
    "rightChainTolerance ?s = 0"
    by (simp_all add: uneven_tolerance_settings_def example_settings_def)
  have k: "sprocketRadius ?k = 10.1" "xCordOfMotor ?k = 1500" "yCordOfMotor ?k = 1200"
    by (simp_all add: example_kinematics_def)
  have "(100 :: real) \<le> sqrt ((- 1500 - 0)\<^sup>2 + (1200 - 0)\<^sup>2)"
    "(100 :: real) \<le> sqrt ((1500 - 0)\<^sup>2 + (1200 - 0)\<^sup>2)"
    by (rule real_le_rsqrt, simp)+
  then have w: "in_workspace ?k 0 0"
    by (simp add: in_workspace_def k)
  obtain arc1 arc2 xt1 yt1 xt2 yt2 ls1 ls2
    where g: "tangent_geometry ?s ?k 0 0 = (arc1, arc2, xt1, yt1, xt2, yt2, ls1, ls2)"
    by (metis prod_cases3)
  have "(arc1, arc2, xt1, yt1, xt2, yt2, ls1, ls2) =
      (arc2, arc1, - xt2, yt2, - xt1, yt1, ls2, ls1)"
    using tangent_geometry_negate [of ?s ?k 0 0] unfolding minus_zero g prod.case .
  then have m: "arc1 = arc2" "xt1 = - xt2" "yt1 = yt2"
    unfolding prod.inject by blast+
  from tangent_geometry_top_form [OF s(1), of ?k 0 0]
  obtain th th2 l1 l2 where "tangent_geometry ?s ?k 0 0 =
      (sprocketRadius ?k * th, sprocketRadius ?k * th2,
       -1.0 * xCordOfMotor ?k + sprocketRadius ?k * sin th,
       yCordOfMotor ?k + sprocketRadius ?k * cos th,
       xCordOfMotor ?k - sprocketRadius ?k * sin th2,
       yCordOfMotor ?k + sprocketRadius ?k * cos th2, l1, l2)"
    by blast
  with g have yt: "yt1 = 1200 + 10.1 * cos th"
    by (simp add: k)
  have "- 1 \<le> cos th" by simp
  then have ypos: "0 < yt1"
    unfolding yt by linarith
  from catenary_lengths_form [of ?s 0 0 arc1 arc2 xt1 yt1 xt2 yt2 ls1 ls2]
  obtain a T1 T2 where c: "catenary_lengths ?s 0 0 (arc1, arc2, xt1, yt1, xt2, yt2, ls1, ls2) =
      (arc1 + sqrt ((2 * a * sinh ((0 - xt1) / (2 * a)))\<^sup>2 + (yt1 - 0)\<^sup>2)
                / (1.0 + leftChainTolerance ?s / 100.0) / (1.0 + T1 * chainElongationFactor ?s)
         - rotationDiskRadius ?s,
       arc2 + sqrt ((2 * a * sinh ((xt2 - 0) / (2 * a)))\<^sup>2 + (yt2 - 0)\<^sup>2)
                / (1.0 + rightChainTolerance ?s / 100.0) / (1.0 + T2 * chainElongationFactor ?s)
         - rotationDiskRadius ?s)"
    by blast
  define h where "h = sqrt ((2 * a * sinh (xt2 / (2 * a)))\<^sup>2 + yt2\<^sup>2)"
  have "yt2 \<le> h"
    unfolding h_def by (rule real_sqrt_sum_squares_ge2)
  with ypos m(3) have hpos: "0 < h" by simp
  have r: "triangularInverse ?s ?k 0 0 =
      (arc2 + h / (1 + 1 / 100) - rotationDiskRadius ?s, arc2 + h - rotationDiskRadius ?s)"
    unfolding triangularInverse_halves g c by (simp add: s m h_def)
  have "h / (1 + 1 / 100) \<noteq> h"
    using hpos by simp
  then have "triangularInverse ?s ?k (- 0) 0 \<noteq> prod.swap (triangularInverse ?s ?k 0 0)"
    unfolding minus_zero r by simp
  with w show ?thesis by simp
qed

section \<open>Properties: the round trip through both kinematics\<close>




















end
